theory Spec2Isabelle
  imports Complex_Main
begin

section \<open>The background analysis clock of forest-server (system-clock.js)\<close>

text \<open>
  The class \<^verbatim>\<open>SystemClock\<close> is embedded with explicit state passing. A \<open>world\<close> holds the
  fields of the instance (\<^verbatim>\<open>isRunning\<close>, \<^verbatim>\<open>intervals\<close>, \<^verbatim>\<open>lastAnalysis\<close>,
  \<^verbatim>\<open>lastArchivingAttempt\<close>), the timer table of the host (what \<^verbatim>\<open>setInterval\<close>,
  \<^verbatim>\<open>setTimeout\<close> and \<^verbatim>\<open>clearInterval\<close> act on), the number of clock readings taken so far,
  and the trace of observable effects in program order (log lines, published events,
  collaborator calls, timer operations). The collaborators that the constructor receives
  are an \<open>env\<close>: a record of answers, each of which may be an exception (\<open>Inl\<close>).

  Timestamps are milliseconds since the epoch (an \<open>int\<close>): \<^verbatim>\<open>Date.now()\<close>, and
  \<^verbatim>\<open>new Date().toISOString()\<close> read back by \<^verbatim>\<open>new Date(s)\<close>, which is the same number.
  An \<^verbatim>\<open>async\<close> body is run to completion: the interleaving of two bodies at their
  \<^verbatim>\<open>await\<close> points is not modelled. The cadences of the configuration are integers, a
  difficulty is a JavaScript number (a double, see below), and a log line is its level, its
  text with \<open>{}\<close> for an interpolated value, and the values.
\<close>

subsection \<open>Data\<close>

type_synonym timestamp = int
type_synonym projectId = string

datatype error = JsError (message: string)

datatype job =
  StrategicAnalysis | RiskDetection | OpportunityScanning | IdentityReflection | DataArchiving

datatype level = Debug | Info | Warn | Err

datatype arg = S string | N int

text \<open>The keys passed to \<^verbatim>\<open>loadProjectData\<close>; \<open>DayJson d\<close> is \<^verbatim>\<open>day_<date>.json\<close> for the
  UTC day number \<open>d\<close>.\<close>

datatype datakey = ConfigJson | HtaJson | LearningHistoryJson | DayJson int

text \<open>
  A JavaScript number is an IEEE 754 double: a finite one is the real number it denotes
  (the two zeros are one value), and there are the two infinities and \<^verbatim>\<open>NaN\<close>.
  \<open>toDouble q\<close> is the double nearest to \<open>q\<close>: 53 bits of significand, ties to
  the even significand, gradual underflow below \<open>pow2 (- 1022)\<close>, infinity from
  \<open>pow2 1024\<close> on. The
  sum of two doubles and the quotient of a double by an array length are the exact results
  rounded by it.
\<close>

datatype jsnum = Num real | PlusInfinity | MinusInfinity | NaN

fun ilog2 :: "nat \<Rightarrow> nat" where
  "ilog2 n = (if n < 2 then 0 else Suc (ilog2 (n div 2)))"

declare ilog2.simps [simp del]

definition pow2 :: "int \<Rightarrow> real" where
  "pow2 e = (if 0 \<le> e then 2 ^ nat e else 1 / 2 ^ nat (- e))"

text \<open>For \<open>0 < a\<close>, the \<open>e\<close> with \<open>pow2 e \<le> a < pow2 (e + 1)\<close>.\<close>

definition exponentOf :: "real \<Rightarrow> int" where
  "exponentOf a =
     (if 1 \<le> a then int (ilog2 (nat \<lfloor>a\<rfloor>))
      else (let j = int (ilog2 (nat \<lfloor>1 / a\<rfloor>))
            in if a = pow2 (- j) then - j else - j - 1))"

definition roundHalfEven :: "real \<Rightarrow> int" where
  "roundHalfEven m =
     (let f = \<lfloor>m\<rfloor>; r = m - of_int f
      in if r < 1 / 2 then f else if 1 / 2 < r then f + 1 else if even f then f else f + 1)"

definition toDouble :: "real \<Rightarrow> jsnum" where
  "toDouble q =
     (if q = 0 then Num 0
      else
        let a = \<bar>q\<bar>;
            u = pow2 (max (exponentOf a) (- 1022) - 52);
            r = of_int (roundHalfEven (a / u)) * u
        in if pow2 1024 \<le> r then (if 0 < q then PlusInfinity else MinusInfinity)
           else Num (if 0 < q then r else - r))"

fun numAdd :: "jsnum \<Rightarrow> jsnum \<Rightarrow> jsnum" where
  "numAdd (Num a) (Num b) = toDouble (a + b)"
| "numAdd NaN y = NaN"
| "numAdd x NaN = NaN"
| "numAdd PlusInfinity MinusInfinity = NaN"
| "numAdd MinusInfinity PlusInfinity = NaN"
| "numAdd PlusInfinity y = PlusInfinity"
| "numAdd x PlusInfinity = PlusInfinity"
| "numAdd MinusInfinity y = MinusInfinity"
| "numAdd x MinusInfinity = MinusInfinity"

text \<open>\<^verbatim>\<open>x / xs.length\<close> for a non-empty array.\<close>

fun divideByLength :: "jsnum \<Rightarrow> nat \<Rightarrow> jsnum" where
  "divideByLength (Num a) n = toDouble (a / of_nat n)"
| "divideByLength x n = x"

text \<open>The numbers that count as false: zero and \<^verbatim>\<open>NaN\<close>.\<close>

definition falsy :: "jsnum \<Rightarrow> bool" where
  "falsy x \<longleftrightarrow> x = Num 0 \<or> x = NaN"

text \<open>An entry of \<^verbatim>\<open>learningHistory.completedTopics\<close>. A field that is absent is \<open>None\<close>;
  \<open>completedAt\<close> is the parsed completion time.\<close>

record topic =
  difficulty :: "jsnum option"
  breakthrough :: bool
  branch :: "string option"
  completedAt :: "timestamp option"

text \<open>A loaded JSON document. Only \<^verbatim>\<open>completedTopics\<close> is ever inspected; an element of
  that array that is \<^verbatim>\<open>null\<close> is \<open>None\<close>.\<close>

record doc =
  content :: string
  completedTopics :: "topic option list option"

record metrics =
  totalCompletedTasks :: nat
  averageDifficulty :: jsnum
  breakthroughCount :: nat
  branchDiversity :: nat
  momentum :: nat
  lastActivityDays :: int
  metrics_error :: "string option"

record snapshot =
  snap_projectId :: projectId
  snap_timestamp :: timestamp
  snap_lastAnalyses :: "(string \<times> timestamp) list"
  snap_config :: "doc option"
  snap_htaData :: "doc option"
  snap_learningHistory :: "doc option"
  snap_recentSchedules :: "(int \<times> doc) list option"
  snap_metrics :: "metrics option"
  snap_error :: "string option"

text \<open>What a provider returns; the fields the clock reads are optional.\<close>

record analysis =
  insights :: "string list option"
  risks :: "string list option"
  overallRiskLevel :: "string option"
  opportunities :: "string list option"
  priorityLevel :: "string option"

record config =
  strategicAnalysisHours :: int
  riskDetectionHours :: int
  opportunityScansHours :: int
  identityReflectionDays :: int
  archivingDays :: int
  enableBackgroundTicks :: bool

text \<open>The argument of \<^verbatim>\<open>start\<close>: every field may be absent.\<close>

record config_in =
  in_strategicAnalysisHours :: "int option"
  in_riskDetectionHours :: "int option"
  in_opportunityScansHours :: "int option"
  in_identityReflectionDays :: "int option"
  in_archivingDays :: "int option"
  in_enableBackgroundTicks :: "bool option"

datatype payload =
    ClockStarted config timestamp
  | ClockStopped timestamp
  | StrategicInsights projectId "analysis option" snapshot string timestamp
  | RisksDetected projectId "string list" string timestamp
  | OpportunitiesDetected projectId "string list" string timestamp
  | IdentityInsights projectId "analysis option" timestamp
  | ArchivingCompleted projectId "analysis option" timestamp

datatype effect =
    Logged level string "arg list"
  | Subscribed string
  | Emit string payload
  | RequireActiveProject
  | LoadProjectData projectId datakey
  | PerformBackgroundAnalysis snapshot string
  | PerformBackgroundReflection snapshot
  | AssessArchiveNeeds projectId
  | ArchiverPerformArchiving projectId
  | LogError string error
  | SetInterval nat job int
  | SetTimeout "job list" int
  | ClearInterval nat

text \<open>The collaborators and the ambient process state. \<open>clock en n\<close> is the \<open>n\<close>-th reading of
  the system clock.\<close>

record env =
  isTTY :: bool
  clock :: "nat \<Rightarrow> timestamp"
  requireActiveProject :: "error + projectId"
  loadProjectData :: "projectId \<Rightarrow> datakey \<Rightarrow> error + doc option"
  performBackgroundAnalysis :: "snapshot \<Rightarrow> string \<Rightarrow> error + analysis option"
  performBackgroundReflection :: "snapshot \<Rightarrow> error + analysis option"
  assessArchiveNeeds :: "projectId \<Rightarrow> error + bool"
  archiverPerformArchiving :: "projectId \<Rightarrow> error + analysis option"

record world =
  isRunning :: bool
  intervals :: "(string \<times> nat) list"
  lastAnalysis :: "(string \<times> timestamp) list"
  lastArchivingAttempt :: "timestamp option"
  hostIntervals :: "(nat \<times> job \<times> int) list"
  hostTimeouts :: "(job list \<times> int) list"
  nextTimerId :: nat
  ticks :: nat
  trace :: "effect list"

subsection \<open>Primitive effects\<close>

text \<open>\<^verbatim>\<open>Map.prototype.set\<close>: an existing key keeps its place, a new key goes last.\<close>

fun map_set :: "'k \<Rightarrow> 'v \<Rightarrow> ('k \<times> 'v) list \<Rightarrow> ('k \<times> 'v) list" where
  "map_set k v [] = [(k, v)]"
| "map_set k v ((k', v') # kvs) =
     (if k' = k then (k, v) # kvs else (k', v') # map_set k v kvs)"

definition eff :: "effect \<Rightarrow> world \<Rightarrow> world" where
  "eff e w = w\<lparr>trace := trace w @ [e]\<rparr>"

definition logger :: "level \<Rightarrow> string \<Rightarrow> arg list \<Rightarrow> world \<Rightarrow> world" where
  "logger l msg args w = eff (Logged l msg args) w"

definition readClock :: "env \<Rightarrow> world \<Rightarrow> timestamp \<times> world" where
  "readClock en w = (clock en (ticks w), w\<lparr>ticks := Suc (ticks w)\<rparr>)"

definition setLastAnalysis :: "string \<Rightarrow> timestamp \<Rightarrow> world \<Rightarrow> world" where
  "setLastAnalysis k t w = w\<lparr>lastAnalysis := map_set k t (lastAnalysis w)\<rparr>"

definition setInterval :: "job \<Rightarrow> int \<Rightarrow> world \<Rightarrow> nat \<times> world" where
  "setInterval j ms w =
     (nextTimerId w,
      w\<lparr>hostIntervals := hostIntervals w @ [(nextTimerId w, j, ms)],
        nextTimerId := Suc (nextTimerId w),
        trace := trace w @ [SetInterval (nextTimerId w) j ms]\<rparr>)"

definition setTimeout :: "job list \<Rightarrow> int \<Rightarrow> world \<Rightarrow> world" where
  "setTimeout js ms w =
     w\<lparr>hostTimeouts := hostTimeouts w @ [(js, ms)], trace := trace w @ [SetTimeout js ms]\<rparr>"

definition clearInterval :: "nat \<Rightarrow> world \<Rightarrow> world" where
  "clearInterval i w =
     w\<lparr>hostIntervals := filter (\<lambda>h. fst h \<noteq> i) (hostIntervals w),
       trace := trace w @ [ClearInterval i]\<rparr>"

subsection \<open>Construction\<close>

definition setupEventListeners :: "world \<Rightarrow> world" where
  "setupEventListeners w =
     eff (Subscribed ''strategy:evolved'')
       (eff (Subscribed ''project:created'') (eff (Subscribed ''block:completed'') w))"

definition constructor :: "env \<Rightarrow> world" where
  "constructor en =
     (let w = setupEventListeners
                \<lparr>isRunning = False, intervals = [], lastAnalysis = [],
                 lastArchivingAttempt = None, hostIntervals = [], hostTimeouts = [],
                 nextTimerId = 0, ticks = 0, trace = []\<rparr>
      in if isTTY en
         then logger Info ''SystemClock initialized - Ready for proactive reasoning'' [] w
         else w)"

subsection \<open>Scheduling\<close>

definition scheduleStrategicAnalysis :: "env \<Rightarrow> int \<Rightarrow> world \<Rightarrow> world" where
  "scheduleStrategicAnalysis en hours w =
     (if \<not> isTTY en
      then logger Info ''Strategic analysis scheduled for MCP mode (event-driven only)'' [] w
      else (case setInterval StrategicAnalysis (hours * 60 * 60 * 1000) w of
              (intervalId, w1) \<Rightarrow>
                setTimeout [StrategicAnalysis] 30000
                  (logger Info ''Strategic analysis scheduled every {} hours'' [N hours]
                     (w1\<lparr>intervals := map_set ''strategic_analysis'' intervalId (intervals w1)\<rparr>))))"

definition scheduleRiskDetection :: "int \<Rightarrow> world \<Rightarrow> world" where
  "scheduleRiskDetection hours w =
     (case setInterval RiskDetection (hours * 60 * 60 * 1000) w of
        (intervalId, w1) \<Rightarrow>
          setTimeout [RiskDetection] 60000
            (logger Info ''Risk detection scheduled every {} hours'' [N hours]
               (w1\<lparr>intervals := map_set ''risk_detection'' intervalId (intervals w1)\<rparr>)))"

definition scheduleOpportunityScans :: "int \<Rightarrow> world \<Rightarrow> world" where
  "scheduleOpportunityScans hours w =
     (case setInterval OpportunityScanning (hours * 60 * 60 * 1000) w of
        (intervalId, w1) \<Rightarrow>
          setTimeout [OpportunityScanning] 90000
            (logger Info ''Opportunity scanning scheduled every {} hours'' [N hours]
               (w1\<lparr>intervals := map_set ''opportunity_scanning'' intervalId (intervals w1)\<rparr>)))"

definition scheduleIdentityReflection :: "int \<Rightarrow> world \<Rightarrow> world" where
  "scheduleIdentityReflection days w =
     (case setInterval IdentityReflection (days * 24 * 60 * 60 * 1000) w of
        (intervalId, w1) \<Rightarrow>
          setTimeout [IdentityReflection] 120000
            (logger Info ''Identity reflection scheduled every {} days'' [N days]
               (w1\<lparr>intervals := map_set ''identity_reflection'' intervalId (intervals w1)\<rparr>)))"

definition scheduleArchiving :: "env \<Rightarrow> int \<Rightarrow> world \<Rightarrow> world" where
  "scheduleArchiving en days w =
     (if \<not> isTTY en
      then logger Info ''Data archiving scheduled for MCP mode (event-driven only)'' [] w
      else (case setInterval DataArchiving (days * 24 * 60 * 60 * 1000) w of
              (intervalId, w1) \<Rightarrow>
                logger Info ''Data archiving scheduled every {} days'' [N days]
                  (w1\<lparr>intervals := map_set ''data_archiving'' intervalId (intervals w1)\<rparr>)))"

subsection \<open>Lifecycle: start, stop, getStatus\<close>

definition defaultConfig :: config where
  "defaultConfig =
     \<lparr>strategicAnalysisHours = 24, riskDetectionHours = 12, opportunityScansHours = 6,
      identityReflectionDays = 7, archivingDays = 30, enableBackgroundTicks = True\<rparr>"

text \<open>\<^verbatim>\<open>{ ...defaultConfig, ...config }\<close>: a field that the caller gives overrides the default.\<close>

definition mergeConfig :: "config \<Rightarrow> config_in \<Rightarrow> config" where
  "mergeConfig d c =
     \<lparr>strategicAnalysisHours =
        (case in_strategicAnalysisHours c of None \<Rightarrow> strategicAnalysisHours d | Some v \<Rightarrow> v),
      riskDetectionHours =
        (case in_riskDetectionHours c of None \<Rightarrow> riskDetectionHours d | Some v \<Rightarrow> v),
      opportunityScansHours =
        (case in_opportunityScansHours c of None \<Rightarrow> opportunityScansHours d | Some v \<Rightarrow> v),
      identityReflectionDays =
        (case in_identityReflectionDays c of None \<Rightarrow> identityReflectionDays d | Some v \<Rightarrow> v),
      archivingDays =
        (case in_archivingDays c of None \<Rightarrow> archivingDays d | Some v \<Rightarrow> v),
      enableBackgroundTicks =
        (case in_enableBackgroundTicks c of None \<Rightarrow> enableBackgroundTicks d | Some v \<Rightarrow> v)\<rparr>"

definition scheduleAll :: "env \<Rightarrow> config \<Rightarrow> world \<Rightarrow> world" where
  "scheduleAll en c w =
     scheduleArchiving en (archivingDays c)
       (scheduleIdentityReflection (identityReflectionDays c)
          (scheduleOpportunityScans (opportunityScansHours c)
             (scheduleRiskDetection (riskDetectionHours c)
                (scheduleStrategicAnalysis en (strategicAnalysisHours c) w))))"

definition start :: "env \<Rightarrow> config_in \<Rightarrow> world \<Rightarrow> world" where
  "start en cfg w =
     (if isRunning w then logger Warn ''SystemClock already running'' [] w
      else
        let merged = mergeConfig defaultConfig cfg;
            w1 = w\<lparr>isRunning := True\<rparr>;
            isMcpMode = \<not> isTTY en;
            w2 = (if isMcpMode
                  then logger Info
                         ''SystemClock starting in MCP mode (intervals disabled to prevent initialization timeout)''
                         [] w1
                  else logger Info ''SystemClock starting with config'' [] w1);
            clockConfig = (if isMcpMode then merged\<lparr>enableBackgroundTicks := False\<rparr> else merged);
            w3 = (if enableBackgroundTicks clockConfig then scheduleAll en clockConfig w2 else w2)
        in case readClock en w3 of
             (startedAt, w4) \<Rightarrow>
               logger Info
                 (if isMcpMode then ''SystemClock started in MCP mode - Event-driven analysis only''
                  else ''SystemClock started - Proactive reasoning engaged'') []
                 (eff (Emit ''system:clock_started'' (ClockStarted clockConfig startedAt)) w4))"

text \<open>The \<^verbatim>\<open>forEach\<close> of \<^verbatim>\<open>stop\<close>: one \<^verbatim>\<open>clearInterval\<close> and one log line per tracked timer,
  in insertion order.\<close>

fun clearAll :: "(string \<times> nat) list \<Rightarrow> world \<Rightarrow> world" where
  "clearAll [] w = w"
| "clearAll ((type, intervalId) # rest) w =
     clearAll rest (logger Info ''Stopped {} interval'' [S type] (clearInterval intervalId w))"

definition stop :: "env \<Rightarrow> world \<Rightarrow> world" where
  "stop en w =
     (if \<not> isRunning w then w
      else
        let w1 = clearAll (intervals w) w;
            w2 = w1\<lparr>intervals := [], isRunning := False\<rparr>
        in case readClock en w2 of
             (stoppedAt, w3) \<Rightarrow>
               logger Info ''SystemClock stopped'' []
                 (eff (Emit ''system:clock_stopped'' (ClockStopped stoppedAt)) w3))"

record status =
  status_isRunning :: bool
  activeIntervals :: "string list"
  lastAnalyses :: "(string \<times> timestamp) list"
  uptime :: string

definition getStatus :: "world \<Rightarrow> status" where
  "getStatus w =
     \<lparr>status_isRunning = isRunning w,
      activeIntervals = map fst (intervals w),
      lastAnalyses = lastAnalysis w,
      uptime = (if isRunning w then ''Active'' else ''Stopped'')\<rparr>"

subsection \<open>Derived metrics and the state snapshot\<close>

definition zeroMetrics :: metrics where
  "zeroMetrics =
     \<lparr>totalCompletedTasks = 0, averageDifficulty = Num 0, breakthroughCount = 0,
      branchDiversity = 0, momentum = 0, lastActivityDays = 0, metrics_error = None\<rparr>"

text \<open>\<^verbatim>\<open>t.difficulty || 3\<close> and \<^verbatim>\<open>t.branch || 'general'\<close>: the default stands in for an absent
  field and for a falsy value (the number 0, the empty string).\<close>

definition difficultyOr3 :: "topic \<Rightarrow> jsnum" where
  "difficultyOr3 t = (case difficulty t of None \<Rightarrow> Num 3 | Some d \<Rightarrow> if falsy d then Num 3 else d)"

definition branchOrGeneral :: "topic \<Rightarrow> string" where
  "branchOrGeneral t = (case branch t of None \<Rightarrow> ''general'' | Some b \<Rightarrow> if b = [] then ''general'' else b)"

definition completedSince :: "timestamp \<Rightarrow> topic \<Rightarrow> bool" where
  "completedSince since t = (case completedAt t of None \<Rightarrow> False | Some c \<Rightarrow> since \<le> c)"

text \<open>
  \<^verbatim>\<open>calculateSystemMetrics\<close>. The property access on a \<^verbatim>\<open>null\<close> element of the array
  throws inside the first \<^verbatim>\<open>map\<close>; the \<^verbatim>\<open>catch\<close> marks the metrics, whose count is
  already set. \<^verbatim>\<open>setDate(getDate() - 7)\<close> is taken as seven times 24 hours (a host on UTC).
  The mean is computed as the code computes it: \<^verbatim>\<open>reduce((a, b) => a + b, 0)\<close> adds the
  doubles from the left, each sum rounded, and the quotient by the length is rounded.
\<close>

definition calculateSystemMetrics :: "env \<Rightarrow> snapshot \<Rightarrow> world \<Rightarrow> metrics \<times> world" where
  "calculateSystemMetrics en systemState w =
     (case snap_learningHistory systemState of
        None \<Rightarrow> (zeroMetrics, w)
      | Some history \<Rightarrow>
          (case completedTopics history of
             None \<Rightarrow> (zeroMetrics, w)
           | Some entries \<Rightarrow>
               let m1 = zeroMetrics\<lparr>totalCompletedTasks := length entries\<rparr> in
               if 0 < length entries then
                 (case those entries of
                    None \<Rightarrow>
                      (m1\<lparr>metrics_error := Some ''Cannot read properties of null''\<rparr>,
                       logger Err ''Error calculating metrics: {}''
                         [S ''Cannot read properties of null''] w)
                  | Some topics \<Rightarrow>
                      let difficulties = map difficultyOr3 topics;
                          m2 = m1\<lparr>averageDifficulty :=
                                    divideByLength (foldl numAdd (Num 0) difficulties)
                                      (length difficulties),
                                  breakthroughCount := length (filter breakthrough topics),
                                  branchDiversity := length (remdups (map branchOrGeneral topics))\<rparr>
                      in case readClock en w of
                           (today, w1) \<Rightarrow>
                             let sevenDaysAgo = today - 7 * 24 * 60 * 60 * 1000;
                                 m3 = m2\<lparr>momentum := length (filter (completedSince sevenDaysAgo) topics)\<rparr>
                             in (case completedAt (last topics) of
                                   None \<Rightarrow> (m3, w1)
                                 | Some lastActivity \<Rightarrow>
                                     (case readClock en w1 of
                                        (now, w2) \<Rightarrow>
                                          (m3\<lparr>lastActivityDays :=
                                                (now - lastActivity) div (1000 * 60 * 60 * 24)\<rparr>, w2))))
               else (m1, w)))"

text \<open>The loop over the last seven days; a load that throws or returns nothing is skipped.\<close>

fun loadSchedules ::
  "env \<Rightarrow> projectId \<Rightarrow> timestamp \<Rightarrow> nat list \<Rightarrow> world \<Rightarrow> (int \<times> doc) list \<times> world" where
  "loadSchedules en p today [] w = ([], w)"
| "loadSchedules en p today (i # rest) w =
     (let dateStr = (today - int i * (1000 * 60 * 60 * 24)) div (1000 * 60 * 60 * 24);
          w1 = eff (LoadProjectData p (DayJson dateStr)) w
      in case loadSchedules en p today rest w1 of
           (found, w2) \<Rightarrow>
             (case loadProjectData en p (DayJson dateStr) of
                Inr (Some schedule) \<Rightarrow> ((dateStr, schedule) # found, w2)
              | _ \<Rightarrow> (found, w2)))"

definition gatherFailed :: "error \<Rightarrow> snapshot \<Rightarrow> world \<Rightarrow> snapshot \<times> world" where
  "gatherFailed e systemState w =
     (systemState\<lparr>snap_error := Some (message e)\<rparr>,
      logger Err ''Error gathering system state: {}'' [S (message e)] w)"

definition gatherSystemState :: "env \<Rightarrow> projectId \<Rightarrow> world \<Rightarrow> snapshot \<times> world" where
  "gatherSystemState en p w0 =
     (case readClock en w0 of
        (stamp, w1) \<Rightarrow>
          (let s0 = \<lparr>snap_projectId = p, snap_timestamp = stamp,
                     snap_lastAnalyses = lastAnalysis w1, snap_config = None,
                     snap_htaData = None, snap_learningHistory = None,
                     snap_recentSchedules = None, snap_metrics = None, snap_error = None\<rparr>;
               w2 = eff (LoadProjectData p ConfigJson) w1
           in (case loadProjectData en p ConfigJson of
                 Inl e \<Rightarrow> gatherFailed e s0 w2
               | Inr c \<Rightarrow>
                   (let s1 = s0\<lparr>snap_config := c\<rparr>;
                        w3 = eff (LoadProjectData p HtaJson) w2
                    in (case loadProjectData en p HtaJson of
                          Inl e \<Rightarrow> gatherFailed e s1 w3
                        | Inr h \<Rightarrow>
                            (let s2 = s1\<lparr>snap_htaData := h\<rparr>;
                                 w4 = eff (LoadProjectData p LearningHistoryJson) w3
                             in (case loadProjectData en p LearningHistoryJson of
                                   Inl e \<Rightarrow> gatherFailed e s2 w4
                                 | Inr l \<Rightarrow>
                                     (case readClock en w4 of
                                        (today, w5) \<Rightarrow>
                                          (case loadSchedules en p today [0..<7] w5 of
                                             (recent, w6) \<Rightarrow>
                                               (let s4 = s2\<lparr>snap_learningHistory := l,
                                                             snap_recentSchedules := Some recent\<rparr>
                                                in (case calculateSystemMetrics en s4 w6 of
                                                      (m, w7) \<Rightarrow>
                                                        (s4\<lparr>snap_metrics := Some m\<rparr>, w7))))))))))))"

subsection \<open>Execution bodies\<close>

text \<open>
  The \<^verbatim>\<open>try\<close> block of a body yields \<open>Some e\<close> when it throws \<open>e\<close> and \<open>None\<close> when it runs
  to its end; the body itself yields \<open>Some e\<close> when the promise of the \<^verbatim>\<open>async\<close> method is
  rejected with \<open>e\<close>. Reading a property of a \<^verbatim>\<open>null\<close> provider result throws a
  \<^verbatim>\<open>TypeError\<close>.
\<close>

definition typeError :: error where
  "typeError = JsError ''Cannot read properties of null''"

text \<open>Modelled from the spec: \<^verbatim>\<open>dataPersistence.logError(context, error)\<close> is a method of
  the persistence collaborator, which is not part of the sources at hand; the spec lists it
  with no failure, so it records the error and returns.\<close>

definition logError :: "string \<Rightarrow> error \<Rightarrow> world \<Rightarrow> world" where
  "logError context e w = eff (LogError context e) w"

definition caught :: "string \<Rightarrow> string \<Rightarrow> error option \<times> world \<Rightarrow> error option \<times> world" where
  "caught msg context r =
     (case r of
        (None, w) \<Rightarrow> (None, w)
      | (Some e, w) \<Rightarrow> (None, logError context e (logger Err msg [S (message e)] w)))"

definition lengthOr0 :: "string list option \<Rightarrow> int" where
  "lengthOr0 xs = (case xs of None \<Rightarrow> 0 | Some l \<Rightarrow> int (length l))"

definition listOrEmpty :: "string list option \<Rightarrow> string list" where
  "listOrEmpty xs = (case xs of None \<Rightarrow> [] | Some l \<Rightarrow> l)"

definition stringOr :: "string \<Rightarrow> string option \<Rightarrow> string" where
  "stringOr d x = (case x of None \<Rightarrow> d | Some v \<Rightarrow> if v = [] then d else v)"

definition performStrategicAnalysis_try :: "env \<Rightarrow> world \<Rightarrow> error option \<times> world" where
  "performStrategicAnalysis_try en w0 =
     (let w1 = eff RequireActiveProject
                 (logger Debug ''SystemClock: Performing strategic analysis...'' [] w0)
      in (case requireActiveProject en of
            Inl e \<Rightarrow> (Some e, w1)
          | Inr activeProject \<Rightarrow>
              (case gatherSystemState en activeProject w1 of
                 (systemState, w2) \<Rightarrow>
                   (let w3 = eff (PerformBackgroundAnalysis systemState ''strategic_overview'') w2
                    in (case performBackgroundAnalysis en systemState ''strategic_overview'' of
                          Inl e \<Rightarrow> (Some e, w3)
                        | Inr strategicInsights \<Rightarrow>
                            (case readClock en w3 of
                               (t1, w4) \<Rightarrow>
                                 (case readClock en (setLastAnalysis ''strategic_analysis'' t1 w4) of
                                    (analyzedAt, w5) \<Rightarrow>
                                      (let w6 = eff (Emit ''system:strategic_insights''
                                                       (StrategicInsights activeProject strategicInsights
                                                          systemState ''background_strategic'' analyzedAt)) w5
                                       in (case strategicInsights of
                                             None \<Rightarrow> (Some typeError, w6)
                                           | Some r \<Rightarrow>
                                               (None,
                                                logger Info
                                                  ''Strategic analysis completed - {} insights generated''
                                                  [N (lengthOr0 (insights r))] w6))))))))))"

definition performStrategicAnalysis :: "env \<Rightarrow> world \<Rightarrow> error option \<times> world" where
  "performStrategicAnalysis en w =
     caught ''Strategic analysis failed: {}'' ''SystemClock.performStrategicAnalysis''
       (performStrategicAnalysis_try en w)"

definition performRiskDetection_try :: "env \<Rightarrow> world \<Rightarrow> error option \<times> world" where
  "performRiskDetection_try en w0 =
     (let w1 = eff RequireActiveProject
                 (logger Debug ''SystemClock: Performing risk detection...'' [] w0)
      in (case requireActiveProject en of
            Inl e \<Rightarrow> (Some e, w1)
          | Inr activeProject \<Rightarrow>
              (case gatherSystemState en activeProject w1 of
                 (systemState, w2) \<Rightarrow>
                   (let w3 = eff (PerformBackgroundAnalysis systemState ''risk_detection'') w2
                    in (case performBackgroundAnalysis en systemState ''risk_detection'' of
                          Inl e \<Rightarrow> (Some e, w3)
                        | Inr riskAnalysis \<Rightarrow>
                            (case readClock en w3 of
                               (t1, w4) \<Rightarrow>
                                 (let w5 = setLastAnalysis ''risk_detection'' t1 w4
                                  in (case riskAnalysis of
                                        None \<Rightarrow> (Some typeError, w5)
                                      | Some r \<Rightarrow>
                                          (case readClock en w5 of
                                             (detectedAt, w6) \<Rightarrow>
                                               (None,
                                                logger Info
                                                  ''Risk detection completed - {} risks identified''
                                                  [N (lengthOr0 (risks r))]
                                                  (eff (Emit ''system:risks_detected''
                                                          (RisksDetected activeProject
                                                             (listOrEmpty (risks r))
                                                             (stringOr ''low'' (overallRiskLevel r))
                                                             detectedAt)) w6)))))))))))"

definition performRiskDetection :: "env \<Rightarrow> world \<Rightarrow> error option \<times> world" where
  "performRiskDetection en w =
     caught ''Risk detection failed: {}'' ''SystemClock.performRiskDetection''
       (performRiskDetection_try en w)"

definition performOpportunityScanning_try :: "env \<Rightarrow> world \<Rightarrow> error option \<times> world" where
  "performOpportunityScanning_try en w0 =
     (let w1 = eff RequireActiveProject
                 (logger Debug ''SystemClock: Performing opportunity scanning...'' [] w0)
      in (case requireActiveProject en of
            Inl e \<Rightarrow> (Some e, w1)
          | Inr activeProject \<Rightarrow>
              (case gatherSystemState en activeProject w1 of
                 (systemState, w2) \<Rightarrow>
                   (let w3 = eff (PerformBackgroundAnalysis systemState ''opportunity_detection'') w2
                    in (case performBackgroundAnalysis en systemState ''opportunity_detection'' of
                          Inl e \<Rightarrow> (Some e, w3)
                        | Inr opportunityAnalysis \<Rightarrow>
                            (case readClock en w3 of
                               (t1, w4) \<Rightarrow>
                                 (let w5 = setLastAnalysis ''opportunity_scanning'' t1 w4
                                  in (case opportunityAnalysis of
                                        None \<Rightarrow> (Some typeError, w5)
                                      | Some r \<Rightarrow>
                                          (case readClock en w5 of
                                             (detectedAt, w6) \<Rightarrow>
                                               (None,
                                                logger Info
                                                  ''Opportunity scanning completed - {} opportunities found''
                                                  [N (lengthOr0 (opportunities r))]
                                                  (eff (Emit ''system:opportunities_detected''
                                                          (OpportunitiesDetected activeProject
                                                             (listOrEmpty (opportunities r))
                                                             (stringOr ''medium'' (priorityLevel r))
                                                             detectedAt)) w6)))))))))))"

definition performOpportunityScanning :: "env \<Rightarrow> world \<Rightarrow> error option \<times> world" where
  "performOpportunityScanning en w =
     caught ''Opportunity scanning failed: {}'' ''SystemClock.performOpportunityScanning''
       (performOpportunityScanning_try en w)"

definition performIdentityReflection_try :: "env \<Rightarrow> world \<Rightarrow> error option \<times> world" where
  "performIdentityReflection_try en w0 =
     (let w1 = eff RequireActiveProject
                 (logger Debug ''SystemClock: Performing identity reflection...'' [] w0)
      in (case requireActiveProject en of
            Inl e \<Rightarrow> (Some e, w1)
          | Inr activeProject \<Rightarrow>
              (case gatherSystemState en activeProject w1 of
                 (systemState, w2) \<Rightarrow>
                   (let w3 = eff (PerformBackgroundReflection systemState) w2
                    in (case performBackgroundReflection en systemState of
                          Inl e \<Rightarrow> (Some e, w3)
                        | Inr identityAnalysis \<Rightarrow>
                            (case readClock en w3 of
                               (t1, w4) \<Rightarrow>
                                 (case readClock en (setLastAnalysis ''identity_reflection'' t1 w4) of
                                    (reflectedAt, w5) \<Rightarrow>
                                      (None,
                                       logger Info ''Identity reflection completed'' []
                                         (eff (Emit ''system:identity_insights''
                                                 (IdentityInsights activeProject identityAnalysis
                                                    reflectedAt)) w5)))))))))"

definition performIdentityReflection :: "env \<Rightarrow> world \<Rightarrow> error option \<times> world" where
  "performIdentityReflection en w =
     caught ''Identity reflection failed: {}'' ''SystemClock.performIdentityReflection''
       (performIdentityReflection_try en w)"

subsection \<open>The archiving body\<close>

text \<open>\<^verbatim>\<open>this.lastArchivingAttempt && (now - this.lastArchivingAttempt) < 30000\<close>: the field is
  \<^verbatim>\<open>undefined\<close> until the first attempt, and the number 0 is falsy as well.\<close>

definition throttled :: "timestamp option \<Rightarrow> timestamp \<Rightarrow> bool" where
  "throttled lastAttempt now =
     (case lastAttempt of None \<Rightarrow> False | Some t \<Rightarrow> t \<noteq> 0 \<and> now - t < 30000)"

definition shouldLog :: "timestamp option \<Rightarrow> timestamp \<Rightarrow> bool" where
  "shouldLog lastCheck now =
     (case lastCheck of None \<Rightarrow> True | Some c \<Rightarrow> 6 * 60 * 60 * 1000 < now - c)"

definition noArchivingNeeded :: "env \<Rightarrow> world \<Rightarrow> world" where
  "noArchivingNeeded en w =
     (let lastCheck = map_of (lastAnalysis w) ''data_archiving_check''
      in (case readClock en w of
            (now, w1) \<Rightarrow>
              setLastAnalysis ''data_archiving_check'' now
                (if shouldLog lastCheck now
                 then logger Debug ''No archiving needed at this time'' [] w1
                 else w1)))"

definition archiveNow :: "env \<Rightarrow> projectId \<Rightarrow> world \<Rightarrow> error option \<times> world" where
  "archiveNow en activeProject w =
     (let w1 = eff (ArchiverPerformArchiving activeProject)
                 (logger Info ''Archive threshold reached - beginning archiving process'' [] w)
      in (case archiverPerformArchiving en activeProject of
            Inl e \<Rightarrow> (Some e, w1)
          | Inr archiveResults \<Rightarrow>
              (case readClock en w1 of
                 (t1, w2) \<Rightarrow>
                   (case readClock en (setLastAnalysis ''data_archiving'' t1 w2) of
                      (archivedAt, w3) \<Rightarrow>
                        (None,
                         logger Info ''Archiving completed successfully'' []
                           (eff (Emit ''system:archiving_completed''
                                   (ArchivingCompleted activeProject archiveResults archivedAt))
                              w3))))))"

definition performArchiving_try :: "env \<Rightarrow> world \<Rightarrow> error option \<times> world" where
  "performArchiving_try en w0 =
     (case readClock en w0 of
        (now, w1) \<Rightarrow>
          (if throttled (lastArchivingAttempt w1) now
           then (None, logger Debug ''SystemClock: Archiving throttled - attempted too recently'' [] w1)
           else
             (let w2 = eff RequireActiveProject
                         (logger Debug ''SystemClock: Performing data archiving check...'' []
                            (w1\<lparr>lastArchivingAttempt := Some now\<rparr>))
              in (case requireActiveProject en of
                    Inl e \<Rightarrow> (Some e, w2)
                  | Inr activeProject \<Rightarrow>
                      (let w3 = eff (AssessArchiveNeeds activeProject) w2
                       in (case assessArchiveNeeds en activeProject of
                             Inl e \<Rightarrow> (Some e, w3)
                           | Inr archiveNeeded \<Rightarrow>
                               (if archiveNeeded then archiveNow en activeProject w3
                                else (None, noArchivingNeeded en w3))))))))"

definition performArchiving :: "env \<Rightarrow> world \<Rightarrow> error option \<times> world" where
  "performArchiving en w =
     caught ''Data archiving failed: {}'' ''SystemClock.performArchiving''
       (performArchiving_try en w)"

subsection \<open>Event handlers, manual trigger, timers\<close>

record opportunityCtx =
  engagementLevel :: "int option"

record block =
  block_breakthrough :: bool
  opportunityContext :: "opportunityCtx option"

definition engagementAtLeast8 :: "block \<Rightarrow> bool" where
  "engagementAtLeast8 b =
     (case opportunityContext b of
        None \<Rightarrow> False
      | Some c \<Rightarrow> (case engagementLevel c of None \<Rightarrow> False | Some l \<Rightarrow> 8 \<le> l))"

definition onBlockCompleted :: "block \<Rightarrow> world \<Rightarrow> world" where
  "onBlockCompleted b w =
     (if block_breakthrough b \<or> engagementAtLeast8 b
      then setTimeout [StrategicAnalysis] 5000
             (logger Debug ''Significant event detected - triggering immediate strategic analysis'' [] w)
      else w)"

definition onProjectCreated :: "projectId \<Rightarrow> world \<Rightarrow> world" where
  "onProjectCreated p w =
     setTimeout [StrategicAnalysis, OpportunityScanning] 10000
       (logger Info ''New project detected: {} - scheduling initial analysis'' [S p] w)"

definition onStrategyEvolved :: "projectId \<Rightarrow> int option \<Rightarrow> world \<Rightarrow> world" where
  "onStrategyEvolved p tasksAdded w =
     (if (case tasksAdded of None \<Rightarrow> False | Some n \<Rightarrow> 3 \<le> n)
      then setTimeout [RiskDetection] 3000
             (logger Debug ''Significant strategy evolution - triggering risk detection'' [] w)
      else w)"

definition triggerImmediateAnalysis :: "env \<Rightarrow> string \<Rightarrow> world \<Rightarrow> error option \<times> world" where
  "triggerImmediateAnalysis en analysisType w0 =
     (let w = logger Debug ''Triggering immediate {} analysis'' [S analysisType] w0
      in if analysisType = ''strategic'' then performStrategicAnalysis en w
         else if analysisType = ''risk'' then performRiskDetection en w
         else if analysisType = ''opportunity'' then performOpportunityScanning en w
         else if analysisType = ''identity'' then performIdentityReflection en w
         else if analysisType = ''archive'' then performArchiving en w
         else (None, logger Err ''Unknown analysis type: {}'' [S analysisType] w))"

text \<open>What a timer callback runs.\<close>

fun runJob :: "env \<Rightarrow> job \<Rightarrow> world \<Rightarrow> error option \<times> world" where
  "runJob en StrategicAnalysis w = performStrategicAnalysis en w"
| "runJob en RiskDetection w = performRiskDetection en w"
| "runJob en OpportunityScanning w = performOpportunityScanning en w"
| "runJob en IdentityReflection w = performIdentityReflection en w"
| "runJob en DataArchiving w = performArchiving en w"

fun runJobs :: "env \<Rightarrow> job list \<Rightarrow> world \<Rightarrow> world" where
  "runJobs en [] w = w"
| "runJobs en (j # js) w = runJobs en js (snd (runJob en j w))"

text \<open>The operations on an instance, and the callbacks of the host: a recurring timer that
  fires stays in the table, a one-off timer that fires leaves it.\<close>

datatype op =
    Start config_in
  | Stop
  | Trigger string
  | BlockCompleted block
  | ProjectCreated projectId
  | StrategyEvolved projectId "int option"
  | FireInterval nat
  | FireTimeout nat

fun exec :: "env \<Rightarrow> op \<Rightarrow> world \<Rightarrow> world" where
  "exec en (Start cfg) w = start en cfg w"
| "exec en Stop w = stop en w"
| "exec en (Trigger t) w = snd (triggerImmediateAnalysis en t w)"
| "exec en (BlockCompleted b) w = onBlockCompleted b w"
| "exec en (ProjectCreated p) w = onProjectCreated p w"
| "exec en (StrategyEvolved p n) w = onStrategyEvolved p n w"
| "exec en (FireInterval i) w =
     (case filter (\<lambda>h. fst h = i) (hostIntervals w) of
        [] \<Rightarrow> w
      | h # _ \<Rightarrow> snd (runJob en (fst (snd h)) w))"
| "exec en (FireTimeout k) w =
     (if k < length (hostTimeouts w)
      then runJobs en (fst (hostTimeouts w ! k))
             (w\<lparr>hostTimeouts := take k (hostTimeouts w) @ drop (Suc k) (hostTimeouts w)\<rparr>)
      else w)"

fun run :: "(env \<times> op) list \<Rightarrow> world \<Rightarrow> world" where
  "run [] w = w"
| "run ((en, a) # rest) w = run rest (exec en a w)"

text \<open>The states an instance can be in: constructed, then any operations and callbacks, each
  in an environment of its own.\<close>

inductive reachable :: "world \<Rightarrow> bool" where
  constructed: "reachable (constructor en)"
| step: "reachable w \<Longrightarrow> reachable (exec en a w)"

section \<open>Auxiliary definitions for the statements\<close>

subsection \<open>Projections of the state\<close>

text \<open>What the timers depend on, what the registry consists of, and the invariant that ties
  the timers tracked by the instance to the recurring timers of the host: each recurring
  timer of the host is tracked under the key of its job, no two of them run the same job,
  and there is none while the clock is stopped.\<close>

definition sched :: "world \<Rightarrow> bool \<times> (string \<times> nat) list \<times> (nat \<times> job \<times> int) list \<times> (job list \<times> int) list \<times> nat" where
  "sched w = (isRunning w, intervals w, hostIntervals w, hostTimeouts w, nextTimerId w)"

definition registry :: "world \<Rightarrow> (string \<times> timestamp) list \<times> timestamp option" where
  "registry w = (lastAnalysis w, lastArchivingAttempt w)"

definition registryKeys :: "world \<Rightarrow> string set" where
  "registryKeys w = fst ` set (lastAnalysis w)"

fun jobKey :: "job \<Rightarrow> string" where
  "jobKey StrategicAnalysis = ''strategic_analysis''"
| "jobKey RiskDetection = ''risk_detection''"
| "jobKey OpportunityScanning = ''opportunity_scanning''"
| "jobKey IdentityReflection = ''identity_reflection''"
| "jobKey DataArchiving = ''data_archiving''"

definition tracked :: "nat \<times> job \<times> int \<Rightarrow> string \<times> nat" where
  "tracked h = (jobKey (fst (snd h)), fst h)"

definition timers_ok :: "world \<Rightarrow> bool" where
  "timers_ok w \<longleftrightarrow>
     (isRunning w \<or> hostIntervals w = []) \<and>
     distinct (map (\<lambda>h. fst (snd h)) (hostIntervals w)) \<and>
     intervals w = map tracked (hostIntervals w)"

definition cancellations :: "(string \<times> nat) list \<Rightarrow> effect list" where
  "cancellations xs =
     concat (map (\<lambda>x. [ClearInterval (snd x), Logged Info ''Stopped {} interval'' [S (fst x)]]) xs)"

subsection \<open>Notions used by the statements\<close>

definition isProviderCall :: "effect \<Rightarrow> bool" where
  "isProviderCall e =
     (case e of
        PerformBackgroundAnalysis s t \<Rightarrow> True
      | PerformBackgroundReflection s \<Rightarrow> True
      | ArchiverPerformArchiving p \<Rightarrow> True
      | _ \<Rightarrow> False)"

definition providerCalls :: "world \<Rightarrow> nat" where
  "providerCalls w = length (filter isProviderCall (trace w))"

definition isAssessCall :: "effect \<Rightarrow> bool" where
  "isAssessCall e = (case e of AssessArchiveNeeds p \<Rightarrow> True | _ \<Rightarrow> False)"

definition assessCalls :: "world \<Rightarrow> nat" where
  "assessCalls w = length (filter isAssessCall (trace w))"

definition quietOn :: "(effect \<Rightarrow> bool) \<Rightarrow> bool" where
  "quietOn P \<longleftrightarrow> (\<forall>l m a. \<not> P (Logged l m a)) \<and> (\<forall>p k. \<not> P (LoadProjectData p k))"

text \<open>The provider operation each job is bound to, at the snapshot it is given.\<close>

fun providerResult :: "env \<Rightarrow> job \<Rightarrow> snapshot \<Rightarrow> error + analysis option" where
  "providerResult en StrategicAnalysis s = performBackgroundAnalysis en s ''strategic_overview''"
| "providerResult en RiskDetection s = performBackgroundAnalysis en s ''risk_detection''"
| "providerResult en OpportunityScanning s = performBackgroundAnalysis en s ''opportunity_detection''"
| "providerResult en IdentityReflection s = performBackgroundReflection en s"
| "providerResult en DataArchiving s = archiverPerformArchiving en (snap_projectId s)"

text \<open>The \<^verbatim>\<open>switch\<close> of the manual trigger.\<close>

definition tagJob :: "string \<Rightarrow> job option" where
  "tagJob t =
     (if t = ''strategic'' then Some StrategicAnalysis
      else if t = ''risk'' then Some RiskDetection
      else if t = ''opportunity'' then Some OpportunityScanning
      else if t = ''identity'' then Some IdentityReflection
      else if t = ''archive'' then Some DataArchiving
      else None)"

text \<open>The state in which an analysis body hands the project to the snapshot gatherer.\<close>

fun entered :: "job \<Rightarrow> world \<Rightarrow> world" where
  "entered StrategicAnalysis w =
     eff RequireActiveProject (logger Debug ''SystemClock: Performing strategic analysis...'' [] w)"
| "entered RiskDetection w =
     eff RequireActiveProject (logger Debug ''SystemClock: Performing risk detection...'' [] w)"
| "entered OpportunityScanning w =
     eff RequireActiveProject (logger Debug ''SystemClock: Performing opportunity scanning...'' [] w)"
| "entered IdentityReflection w =
     eff RequireActiveProject (logger Debug ''SystemClock: Performing identity reflection...'' [] w)"
| "entered DataArchiving w = w"




text \<open>The records of a failure: a call of \<^verbatim>\<open>dataPersistence.logError\<close>, an error line of
  the logger, and among these the line of the snapshot gatherer.\<close>

definition isLogError :: "effect \<Rightarrow> bool" where
  "isLogError e = (case e of LogError c x \<Rightarrow> True | _ \<Rightarrow> False)"


definition isGatherFailureLog :: "effect \<Rightarrow> bool" where
  "isGatherFailureLog e =
     (case e of Logged l m a \<Rightarrow> m = ''Error gathering system state: {}'' | _ \<Rightarrow> False)"


definition noNeedNote :: effect where
  "noNeedNote = Logged Debug ''No archiving needed at this time'' []"

text \<open>The mean difficulty in the words of the specification, over the difficulty fields of
  the items (\<open>None\<close> for an item without the field): an item without the field counts 3,
  every other item counts its value.\<close>

definition specMeanDifficulty :: "real option list \<Rightarrow> real" where
  "specMeanDifficulty ds =
     sum_list (map (\<lambda>d. case d of None \<Rightarrow> 3 | Some v \<Rightarrow> v) ds) / of_nat (length ds)"

subsection \<open>Concrete environments and inputs\<close>

definition ttyEnv :: env where
  "ttyEnv =
     \<lparr>isTTY = True, clock = (\<lambda>n. 1000000 + 1000 * int n),
      requireActiveProject = Inr ''p1'',
      loadProjectData = (\<lambda>p k. Inr None),
      performBackgroundAnalysis = (\<lambda>s t. Inr None),
      performBackgroundReflection = (\<lambda>s. Inr None),
      assessArchiveNeeds = (\<lambda>p. Inr False),
      archiverPerformArchiving = (\<lambda>p. Inr None)\<rparr>"

definition mcpEnv :: env where
  "mcpEnv = ttyEnv\<lparr>isTTY := False\<rparr>"

definition envAt :: "timestamp \<Rightarrow> env" where
  "envAt t = ttyEnv\<lparr>clock := (\<lambda>n. t)\<rparr>"






definition noConfig :: config_in where
  "noConfig =
     \<lparr>in_strategicAnalysisHours = None, in_riskDetectionHours = None,
      in_opportunityScansHours = None, in_identityReflectionDays = None,
      in_archivingDays = None, in_enableBackgroundTicks = None\<rparr>"

definition allTicks :: config_in where
  "allTicks = noConfig\<lparr>in_enableBackgroundTicks := Some True, in_riskDetectionHours := Some 1\<rparr>"

definition engagedBlock :: "int \<Rightarrow> block" where
  "engagedBlock l =
     \<lparr>block_breakthrough = False, opportunityContext = Some \<lparr>engagementLevel = Some l\<rparr>\<rparr>"

definition topicOf :: "jsnum option \<Rightarrow> topic" where
  "topicOf d = \<lparr>difficulty = d, breakthrough = False, branch = None, completedAt = None\<rparr>"

definition snapshotOf :: "topic option list \<Rightarrow> snapshot" where
  "snapshotOf entries =
     \<lparr>snap_projectId = ''p1'', snap_timestamp = 0, snap_lastAnalyses = [],
      snap_config = None, snap_htaData = None,
      snap_learningHistory = Some \<lparr>content = [], completedTopics = Some entries\<rparr>,
      snap_recentSchedules = Some [], snap_metrics = None, snap_error = None\<rparr>"

section \<open>Lemmas\<close>

subsection \<open>Bodies leave the timers alone\<close>

lemmas prims = eff_def logger_def readClock_def setLastAnalysis_def setInterval_def
  setTimeout_def clearInterval_def logError_def

lemma sched_prims [simp]:
  "sched (eff e w) = sched w"
  "sched (logger l m a w) = sched w"
  "sched (snd (readClock en w)) = sched w"
  "sched (setLastAnalysis k t w) = sched w"
  "sched (logError c e' w) = sched w"
  "sched (w\<lparr>lastArchivingAttempt := x\<rparr>) = sched w"
  by (simp_all add: sched_def prims)

lemma registry_prims [simp]:
  "registry (eff e w) = registry w"
  "registry (logger l m a w) = registry w"
  "registry (snd (readClock en w)) = registry w"
  "registry (logError c e' w) = registry w"
  by (simp_all add: registry_def prims)

lemma sched_loadSchedules [simp]: "sched (snd (loadSchedules en p t ds w)) = sched w"
  by (induction ds arbitrary: w) (simp_all add: Let_def split_beta split: sum.splits option.splits)

lemma registry_loadSchedules [simp]: "registry (snd (loadSchedules en p t ds w)) = registry w"
  by (induction ds arbitrary: w) (simp_all add: Let_def split_beta split: sum.splits option.splits)

lemma sched_metrics [simp]: "sched (snd (calculateSystemMetrics en s w)) = sched w"
  by (simp add: calculateSystemMetrics_def Let_def split_beta split: option.splits)

lemma registry_metrics [simp]: "registry (snd (calculateSystemMetrics en s w)) = registry w"
  by (simp add: calculateSystemMetrics_def Let_def split_beta split: option.splits)

lemma sched_gather [simp]: "sched (snd (gatherSystemState en p w)) = sched w"
  by (simp add: gatherSystemState_def gatherFailed_def Let_def split_beta split: sum.splits)

lemma registry_gather [simp]: "registry (snd (gatherSystemState en p w)) = registry w"
  by (simp add: gatherSystemState_def gatherFailed_def Let_def split_beta split: sum.splits)

lemma sched_caught [simp]: "sched (snd (caught m c r)) = sched (snd r)"
  by (simp add: caught_def split: prod.splits option.splits)

lemma fst_caught [simp]: "fst (caught m c r) = None"
  by (simp add: caught_def split: prod.splits option.splits)

lemma sched_strategic [simp]: "sched (snd (performStrategicAnalysis en w)) = sched w"
  by (simp add: performStrategicAnalysis_def performStrategicAnalysis_try_def Let_def split_beta
      split: sum.splits option.splits)

lemma sched_risk [simp]: "sched (snd (performRiskDetection en w)) = sched w"
  by (simp add: performRiskDetection_def performRiskDetection_try_def Let_def split_beta
      split: sum.splits option.splits)

lemma sched_opportunity [simp]: "sched (snd (performOpportunityScanning en w)) = sched w"
  by (simp add: performOpportunityScanning_def performOpportunityScanning_try_def Let_def split_beta
      split: sum.splits option.splits)

lemma sched_identity [simp]: "sched (snd (performIdentityReflection en w)) = sched w"
  by (simp add: performIdentityReflection_def performIdentityReflection_try_def Let_def split_beta
      split: sum.splits option.splits)

lemma sched_archiveNow [simp]: "sched (snd (archiveNow en p w)) = sched w"
  by (simp add: archiveNow_def Let_def split_beta split: sum.splits)

lemma sched_noArchivingNeeded [simp]: "sched (noArchivingNeeded en w) = sched w"
  by (simp add: noArchivingNeeded_def Let_def split_beta)

lemma sched_archiving [simp]: "sched (snd (performArchiving en w)) = sched w"
  by (simp add: performArchiving_def performArchiving_try_def Let_def split_beta
      split: sum.splits)

lemma sched_runJob [simp]: "sched (snd (runJob en j w)) = sched w"
  by (cases j) simp_all

lemma sched_trigger [simp]: "sched (snd (triggerImmediateAnalysis en t w)) = sched w"
  by (simp add: triggerImmediateAnalysis_def Let_def)

lemma sched_runJobs [simp]: "sched (runJobs en js w) = sched w"
  by (induction js arbitrary: w) simp_all

subsection \<open>The timer invariant\<close>

lemma timers_ok_cong: "sched w' = sched w \<Longrightarrow> timers_ok w' = timers_ok w"
  by (simp add: timers_ok_def sched_def)

lemma timers_ok_constructor: "timers_ok (constructor en)"
  by (simp add: timers_ok_def constructor_def setupEventListeners_def prims Let_def)

lemmas schedule_defs = scheduleAll_def scheduleStrategicAnalysis_def scheduleRiskDetection_def
  scheduleOpportunityScans_def scheduleIdentityReflection_def scheduleArchiving_def

lemma scheduleAll_tty:
  assumes "isTTY en" "hostIntervals w = []" "intervals w = []"
  shows "hostIntervals (scheduleAll en c w) =
           [(nextTimerId w, StrategicAnalysis, strategicAnalysisHours c * 60 * 60 * 1000),
            (Suc (nextTimerId w), RiskDetection, riskDetectionHours c * 60 * 60 * 1000),
            (Suc (Suc (nextTimerId w)), OpportunityScanning, opportunityScansHours c * 60 * 60 * 1000),
            (Suc (Suc (Suc (nextTimerId w))), IdentityReflection, identityReflectionDays c * 24 * 60 * 60 * 1000),
            (Suc (Suc (Suc (Suc (nextTimerId w)))), DataArchiving, archivingDays c * 24 * 60 * 60 * 1000)]"
    and "intervals (scheduleAll en c w) =
           [(''strategic_analysis'', nextTimerId w),
            (''risk_detection'', Suc (nextTimerId w)),
            (''opportunity_scanning'', Suc (Suc (nextTimerId w))),
            (''identity_reflection'', Suc (Suc (Suc (nextTimerId w)))),
            (''data_archiving'', Suc (Suc (Suc (Suc (nextTimerId w)))))]"
  using assms by (simp_all add: schedule_defs prims)

lemma scheduleAll_isRunning: "isRunning (scheduleAll en c w) = isRunning w"
  by (simp add: schedule_defs prims)

lemma start_running: "isRunning w \<Longrightarrow> start en cfg w = logger Warn ''SystemClock already running'' [] w"
  by (simp add: start_def)

lemma isRunning_start: "isRunning (start en cfg w)"
  by (simp add: start_def Let_def split_beta prims scheduleAll_isRunning)

lemma eff_fields [simp]:
  "isRunning (eff e w) = isRunning w"
  "intervals (eff e w) = intervals w"
  "lastAnalysis (eff e w) = lastAnalysis w"
  "lastArchivingAttempt (eff e w) = lastArchivingAttempt w"
  "hostIntervals (eff e w) = hostIntervals w"
  "hostTimeouts (eff e w) = hostTimeouts w"
  "nextTimerId (eff e w) = nextTimerId w"
  "ticks (eff e w) = ticks w"
  "trace (eff e w) = trace w @ [e]"
  by (simp_all add: eff_def)

lemma logger_fields [simp]:
  "isRunning (logger l m a w) = isRunning w"
  "intervals (logger l m a w) = intervals w"
  "lastAnalysis (logger l m a w) = lastAnalysis w"
  "lastArchivingAttempt (logger l m a w) = lastArchivingAttempt w"
  "hostIntervals (logger l m a w) = hostIntervals w"
  "hostTimeouts (logger l m a w) = hostTimeouts w"
  "nextTimerId (logger l m a w) = nextTimerId w"
  "ticks (logger l m a w) = ticks w"
  "trace (logger l m a w) = trace w @ [Logged l m a]"
  by (simp_all add: logger_def)

lemma readClock_fields [simp]:
  "fst (readClock en w) = clock en (ticks w)"
  "isRunning (snd (readClock en w)) = isRunning w"
  "intervals (snd (readClock en w)) = intervals w"
  "lastAnalysis (snd (readClock en w)) = lastAnalysis w"
  "lastArchivingAttempt (snd (readClock en w)) = lastArchivingAttempt w"
  "hostIntervals (snd (readClock en w)) = hostIntervals w"
  "hostTimeouts (snd (readClock en w)) = hostTimeouts w"
  "nextTimerId (snd (readClock en w)) = nextTimerId w"
  "ticks (snd (readClock en w)) = Suc (ticks w)"
  "trace (snd (readClock en w)) = trace w"
  by (simp_all add: readClock_def)

lemma timers_ok_start: assumes "timers_ok w" shows "timers_ok (start en cfg w)"
proof (cases "isRunning w")
  case True
  with assms show ?thesis by (simp add: start_running timers_ok_def)
next
  case False
  with assms have e: "hostIntervals w = []" "intervals w = []"
    by (simp_all add: timers_ok_def)
  show ?thesis
  proof (cases "isTTY en \<and> enableBackgroundTicks (mergeConfig defaultConfig cfg)")
    case True
    let ?w2 = "logger Info ''SystemClock starting with config'' [] (w\<lparr>isRunning := True\<rparr>)"
    have "hostIntervals ?w2 = []" "intervals ?w2 = []" using e by simp_all
    note sa = scheduleAll_tty [OF conjunct1 [OF True] this]
    from True False show ?thesis
      by (simp add: start_def Let_def split_beta timers_ok_def sa tracked_def scheduleAll_isRunning)
  next
    case False
    with \<open>\<not> isRunning w\<close> e show ?thesis
      by (auto simp add: start_def Let_def split_beta timers_ok_def)
  qed
qed

lemma clearAll_hostIntervals:
  "hostIntervals (clearAll xs w) = filter (\<lambda>h. fst h \<notin> snd ` set xs) (hostIntervals w)"
proof (induction xs arbitrary: w)
  case Nil
  show ?case by simp
next
  case (Cons x xs)
  obtain ty i where x: "x = (ty, i)" by (cases x)
  show ?case
    by (simp add: x Cons.IH clearInterval_def del: filter_filter) (auto intro: filter_cong)
qed

lemma clearAll_frame:
  "isRunning (clearAll xs w) = isRunning w \<and>
   intervals (clearAll xs w) = intervals w \<and>
   hostTimeouts (clearAll xs w) = hostTimeouts w \<and>
   nextTimerId (clearAll xs w) = nextTimerId w \<and>
   lastAnalysis (clearAll xs w) = lastAnalysis w \<and>
   lastArchivingAttempt (clearAll xs w) = lastArchivingAttempt w \<and>
   ticks (clearAll xs w) = ticks w"
  by (induction xs w rule: clearAll.induct) (simp_all add: clearInterval_def)

lemma clearAll_fields [simp]:
  "isRunning (clearAll xs w) = isRunning w"
  "intervals (clearAll xs w) = intervals w"
  "hostTimeouts (clearAll xs w) = hostTimeouts w"
  "nextTimerId (clearAll xs w) = nextTimerId w"
  "lastAnalysis (clearAll xs w) = lastAnalysis w"
  "lastArchivingAttempt (clearAll xs w) = lastArchivingAttempt w"
  "ticks (clearAll xs w) = ticks w"
  using clearAll_frame [of xs w] by simp_all

lemma stop_hostIntervals:
  assumes "intervals w = map tracked (hostIntervals w)"
  shows "hostIntervals (stop en w) = (if isRunning w then [] else hostIntervals w)"
proof -
  have "filter (\<lambda>h. fst h \<notin> snd ` set (map tracked hs)) hs = []" for hs :: "(nat \<times> job \<times> int) list"
    by (auto simp add: filter_empty_conv tracked_def image_iff)
  with assms show ?thesis
    by (simp add: stop_def Let_def split_beta clearAll_hostIntervals)
qed

lemma stop_fields:
  "isRunning (stop en w) = False"
  "intervals (stop en w) = (if isRunning w then [] else intervals w)"
  "lastAnalysis (stop en w) = lastAnalysis w"
  "lastArchivingAttempt (stop en w) = lastArchivingAttempt w"
  "hostTimeouts (stop en w) = hostTimeouts w"
  by (simp_all add: stop_def Let_def split_beta)

lemma timers_ok_stop: "timers_ok w \<Longrightarrow> timers_ok (stop en w)"
  by (auto simp add: timers_ok_def stop_fields stop_hostIntervals)

lemma timers_ok_exec: assumes "timers_ok w" shows "timers_ok (exec en a w)"
proof (cases a)
  case (Start cfg) with assms show ?thesis by (simp add: timers_ok_start)
next
  case Stop with assms show ?thesis by (simp add: timers_ok_stop)
next
  case (Trigger t)
  have "timers_ok (snd (triggerImmediateAnalysis en t w)) = timers_ok w"
    by (rule timers_ok_cong) simp
  with Trigger assms show ?thesis by simp
next
  case (BlockCompleted b) with assms show ?thesis
    by (simp add: timers_ok_def onBlockCompleted_def setTimeout_def)
next
  case (ProjectCreated p) with assms show ?thesis
    by (simp add: timers_ok_def onProjectCreated_def setTimeout_def)
next
  case (StrategyEvolved p n) with assms show ?thesis
    by (simp add: timers_ok_def onStrategyEvolved_def setTimeout_def)
next
  case (FireInterval i)
  have "timers_ok (snd (runJob en j w)) = timers_ok w" for j
    by (rule timers_ok_cong) simp
  with FireInterval assms show ?thesis by (simp split: list.splits)
next
  case (FireTimeout k)
  have "sched (runJobs en js (w\<lparr>hostTimeouts := x\<rparr>)) = sched (w\<lparr>hostTimeouts := x\<rparr>)" for js x
    by simp
  then have "timers_ok (runJobs en js (w\<lparr>hostTimeouts := x\<rparr>)) = timers_ok w" for js x
    by (simp add: timers_ok_def sched_def)
  with FireTimeout assms show ?thesis by simp
qed

lemma reachable_timers_ok: "reachable w \<Longrightarrow> timers_ok w"
  by (induction rule: reachable.induct) (simp_all add: timers_ok_constructor timers_ok_exec)

subsection \<open>The effects of stop, and running clocks\<close>

lemma trace_clearAll: "trace (clearAll xs w) = trace w @ cancellations xs"
  by (induction xs w rule: clearAll.induct) (simp_all add: cancellations_def clearInterval_def)

lemma cancellations_complete: "i \<in> snd ` set xs \<Longrightarrow> ClearInterval i \<in> set (cancellations xs)"
  by (auto simp add: cancellations_def)

lemma cancellations_no_emit: "Emit t p \<notin> set (cancellations xs)"
  by (auto simp add: cancellations_def)

lemma stop_stopped: "\<not> isRunning w \<Longrightarrow> stop en w = w"
  by (simp add: stop_def)

lemma trace_stop:
  "isRunning w \<Longrightarrow>
   trace (stop en w) =
     trace w @ cancellations (intervals w) @
       [Emit ''system:clock_stopped'' (ClockStopped (clock en (ticks w))),
        Logged Info ''SystemClock stopped'' []]"
  by (simp add: stop_def Let_def split_beta trace_clearAll)

lemma reachable_started: "reachable (start en cfg (constructor en))"
  using reachable.step [OF reachable.constructed, of en "Start cfg" en] by simp

lemma constructor_stopped: "\<not> isRunning (constructor en)"
  by (simp add: constructor_def setupEventListeners_def Let_def)

lemma sched_eqD:
  "sched w' = sched w \<Longrightarrow>
   isRunning w' = isRunning w \<and> intervals w' = intervals w \<and>
   hostIntervals w' = hostIntervals w \<and> hostTimeouts w' = hostTimeouts w \<and>
   nextTimerId w' = nextTimerId w"
  by (simp add: sched_def)

lemma isRunning_runJob [simp]: "isRunning (snd (runJob en j w)) = isRunning w"
  using sched_eqD [OF sched_runJob] by blast

lemma isRunning_runJobs [simp]: "isRunning (runJobs en js w) = isRunning w"
  using sched_eqD [OF sched_runJobs] by blast

lemma isRunning_trigger [simp]: "isRunning (snd (triggerImmediateAnalysis en t w)) = isRunning w"
  using sched_eqD [OF sched_trigger] by blast

lemma running_kept: "a \<noteq> Stop \<Longrightarrow> isRunning w \<Longrightarrow> isRunning (exec en a w)"
  by (cases a)
    (simp_all add: isRunning_start onBlockCompleted_def onProjectCreated_def
      onStrategyEvolved_def setTimeout_def split: list.splits)

lemma start_tty_timers:
  "hostIntervals (start ttyEnv noConfig (constructor ttyEnv)) =
     [(0, StrategicAnalysis, 86400000), (1, RiskDetection, 43200000),
      (2, OpportunityScanning, 21600000), (3, IdentityReflection, 604800000),
      (4, DataArchiving, 2592000000)]"
  by (simp add: start_def Let_def split_beta constructor_def setupEventListeners_def ttyEnv_def
      mergeConfig_def defaultConfig_def noConfig_def schedule_defs prims)

subsection \<open>The registry only grows\<close>

lemma keys_map_set: "fst ` set (map_set k v xs) = insert k (fst ` set xs)"
proof (induction xs)
  case Nil
  show ?case by simp
next
  case (Cons x xs)
  obtain a b where x: "x = (a, b)" by (cases x)
  show ?case
  proof (cases "a = k")
    case True
    then show ?thesis by (simp add: x)
  next
    case False
    then show ?thesis by (simp add: x Cons.IH insert_commute)
  qed
qed

lemma map_of_map_set: "map_of (map_set k v xs) = (map_of xs)(k \<mapsto> v)"
  by (induction xs) auto

lemma setLastAnalysis_fields [simp]:
  "isRunning (setLastAnalysis k t w) = isRunning w"
  "intervals (setLastAnalysis k t w) = intervals w"
  "lastAnalysis (setLastAnalysis k t w) = map_set k t (lastAnalysis w)"
  "lastArchivingAttempt (setLastAnalysis k t w) = lastArchivingAttempt w"
  "hostIntervals (setLastAnalysis k t w) = hostIntervals w"
  "hostTimeouts (setLastAnalysis k t w) = hostTimeouts w"
  "nextTimerId (setLastAnalysis k t w) = nextTimerId w"
  "ticks (setLastAnalysis k t w) = ticks w"
  "trace (setLastAnalysis k t w) = trace w"
  by (simp_all add: setLastAnalysis_def)

lemma logError_fields [simp]:
  "lastAnalysis (logError c e w) = lastAnalysis w"
  "lastArchivingAttempt (logError c e w) = lastArchivingAttempt w"
  "ticks (logError c e w) = ticks w"
  "trace (logError c e w) = trace w @ [LogError c e]"
  by (simp_all add: logError_def)

lemma registry_eqD:
  "registry w' = registry w \<Longrightarrow>
   lastAnalysis w' = lastAnalysis w \<and> lastArchivingAttempt w' = lastArchivingAttempt w"
  by (simp add: registry_def)

lemma gather_registry_fields [simp]:
  "lastAnalysis (snd (gatherSystemState en p w)) = lastAnalysis w"
  "lastArchivingAttempt (snd (gatherSystemState en p w)) = lastArchivingAttempt w"
  using registry_eqD [OF registry_gather] by blast+

lemma registryKeys_prims [simp]:
  "registryKeys (eff e w) = registryKeys w"
  "registryKeys (logger l m a w) = registryKeys w"
  "registryKeys (snd (readClock en w)) = registryKeys w"
  "registryKeys (logError c e' w) = registryKeys w"
  "registryKeys (snd (gatherSystemState en p w)) = registryKeys w"
  "registryKeys (setLastAnalysis k t w) = insert k (registryKeys w)"
  "registryKeys (w\<lparr>lastArchivingAttempt := x\<rparr>) = registryKeys w"
  "registryKeys (w\<lparr>hostTimeouts := y\<rparr>) = registryKeys w"
  by (simp_all add: registryKeys_def keys_map_set)

lemma keys_caught: "registryKeys (snd (caught m c r)) = registryKeys (snd r)"
  by (simp add: caught_def split: prod.splits option.splits)

lemma keys_strategic: "registryKeys w \<subseteq> registryKeys (snd (performStrategicAnalysis en w))"
  by (auto simp add: performStrategicAnalysis_def performStrategicAnalysis_try_def keys_caught
      Let_def split_beta split: sum.splits option.splits)

lemma keys_risk: "registryKeys w \<subseteq> registryKeys (snd (performRiskDetection en w))"
  by (auto simp add: performRiskDetection_def performRiskDetection_try_def keys_caught
      Let_def split_beta split: sum.splits option.splits)

lemma keys_opportunity: "registryKeys w \<subseteq> registryKeys (snd (performOpportunityScanning en w))"
  by (auto simp add: performOpportunityScanning_def performOpportunityScanning_try_def keys_caught
      Let_def split_beta split: sum.splits option.splits)

lemma keys_identity: "registryKeys w \<subseteq> registryKeys (snd (performIdentityReflection en w))"
  by (auto simp add: performIdentityReflection_def performIdentityReflection_try_def keys_caught
      Let_def split_beta split: sum.splits option.splits)

lemma keys_archiving: "registryKeys w \<subseteq> registryKeys (snd (performArchiving en w))"
  by (auto simp add: performArchiving_def performArchiving_try_def keys_caught archiveNow_def
      noArchivingNeeded_def Let_def split_beta split: sum.splits option.splits)

lemma keys_runJob: "registryKeys w \<subseteq> registryKeys (snd (runJob en j w))"
  by (cases j) (simp_all add: keys_strategic keys_risk keys_opportunity keys_identity keys_archiving)

lemma keys_runJobs: "registryKeys w \<subseteq> registryKeys (runJobs en js w)"
proof (induction js arbitrary: w)
  case Nil
  show ?case by simp
next
  case (Cons j js)
  have "registryKeys w \<subseteq> registryKeys (snd (runJob en j w))" by (rule keys_runJob)
  also have "\<dots> \<subseteq> registryKeys (runJobs en js (snd (runJob en j w)))" by (rule Cons.IH)
  finally show ?case by simp
qed

lemma keys_trigger: "registryKeys w \<subseteq> registryKeys (snd (triggerImmediateAnalysis en t w))"
proof -
  let ?w = "logger Debug ''Triggering immediate {} analysis'' [S t] w"
  have k: "registryKeys ?w = registryKeys w" by simp
  show ?thesis
    unfolding triggerImmediateAnalysis_def Let_def
    using keys_strategic [of ?w en] keys_risk [of ?w en] keys_opportunity [of ?w en]
      keys_identity [of ?w en] keys_archiving [of ?w en]
    by (auto simp add: k)
qed

lemma start_registry:
  "lastAnalysis (start en cfg w) = lastAnalysis w"
  "lastArchivingAttempt (start en cfg w) = lastArchivingAttempt w"
  by (simp_all add: start_def Let_def split_beta schedule_defs setInterval_def setTimeout_def)

lemma keys_exec: "registryKeys w \<subseteq> registryKeys (exec en a w)"
proof (cases a)
  case (Start cfg) then show ?thesis by (simp add: registryKeys_def start_registry)
next
  case Stop then show ?thesis by (simp add: registryKeys_def stop_fields)
next
  case (Trigger t) then show ?thesis by (simp add: keys_trigger)
next
  case (BlockCompleted b) then show ?thesis
    by (simp add: registryKeys_def onBlockCompleted_def setTimeout_def)
next
  case (ProjectCreated p) then show ?thesis
    by (simp add: registryKeys_def onProjectCreated_def setTimeout_def)
next
  case (StrategyEvolved p n) then show ?thesis
    by (simp add: registryKeys_def onStrategyEvolved_def setTimeout_def)
next
  case (FireInterval i) then show ?thesis by (simp add: keys_runJob split: list.splits)
next
  case (FireTimeout k)
  show ?thesis
  proof (cases "k < length (hostTimeouts w)")
    case True
    let ?w = "w\<lparr>hostTimeouts := take k (hostTimeouts w) @ drop (Suc k) (hostTimeouts w)\<rparr>"
    have "registryKeys ?w \<subseteq> registryKeys (runJobs en (fst (hostTimeouts w ! k)) ?w)"
      by (rule keys_runJobs)
    with True FireTimeout show ?thesis by simp
  next
    case False
    with FireTimeout show ?thesis by simp
  qed
qed

lemmas body_defs =
  performStrategicAnalysis_def performStrategicAnalysis_try_def
  performRiskDetection_def performRiskDetection_try_def
  performOpportunityScanning_def performOpportunityScanning_try_def
  performIdentityReflection_def performIdentityReflection_try_def
  performArchiving_def performArchiving_try_def archiveNow_def noArchivingNeeded_def
  caught_def gatherSystemState_def gatherFailed_def calculateSystemMetrics_def
  throttled_def shouldLog_def typeError_def

lemma identity_run:
  "lastAnalysis (snd (triggerImmediateAnalysis ttyEnv ''identity'' (constructor ttyEnv))) =
     [(''identity_reflection'', 1002000)]"
  by (simp add: triggerImmediateAnalysis_def body_defs ttyEnv_def constructor_def
      setupEventListeners_def Let_def split_beta upt_rec)

subsection \<open>Start on a host without a terminal\<close>

lemma start_mcp:
  "\<not> isTTY en \<Longrightarrow> \<not> isRunning w \<Longrightarrow>
   start en cfg w =
     w\<lparr>isRunning := True, ticks := Suc (ticks w),
       trace := trace w @
         [Logged Info
            ''SystemClock starting in MCP mode (intervals disabled to prevent initialization timeout)'' [],
          Emit ''system:clock_started''
            (ClockStarted ((mergeConfig defaultConfig cfg)\<lparr>enableBackgroundTicks := False\<rparr>)
               (clock en (ticks w))),
          Logged Info ''SystemClock started in MCP mode - Event-driven analysis only'' []]\<rparr>"
  by (simp add: start_def Let_def prims)

lemma start_mcp_timers:
  assumes "\<not> isTTY en"
  shows "hostIntervals (start en cfg w) = hostIntervals w"
    and "hostTimeouts (start en cfg w) = hostTimeouts w"
    and "intervals (start en cfg w) = intervals w"
proof -
  show "hostIntervals (start en cfg w) = hostIntervals w"
    using assms by (cases "isRunning w") (simp_all add: start_mcp start_running)
  show "hostTimeouts (start en cfg w) = hostTimeouts w"
    using assms by (cases "isRunning w") (simp_all add: start_mcp start_running)
  show "intervals (start en cfg w) = intervals w"
    using assms by (cases "isRunning w") (simp_all add: start_mcp start_running)
qed

lemma constructor_fields:
  "intervals (constructor en) = []" "hostIntervals (constructor en) = []"
  "hostTimeouts (constructor en) = []" "lastAnalysis (constructor en) = []"
  "lastArchivingAttempt (constructor en) = None" "ticks (constructor en) = 0"
  by (simp_all add: constructor_def setupEventListeners_def Let_def)

lemma mcpEnv_not_tty: "\<not> isTTY mcpEnv"
  by (simp add: mcpEnv_def)

subsection \<open>Event handlers\<close>

lemma engagementAtLeast8_iff:
  "engagementAtLeast8 b \<longleftrightarrow>
     (\<exists>c l. opportunityContext b = Some c \<and> engagementLevel c = Some l \<and> 8 \<le> l)"
  by (auto simp add: engagementAtLeast8_def split: option.splits)

lemma tasksAdded_iff:
  "(case n of None \<Rightarrow> False | Some k \<Rightarrow> (3::int) \<le> k) \<longleftrightarrow> (\<exists>k. n = Some k \<and> 3 \<le> k)"
  by (cases n) simp_all

lemma onBlockCompleted_eq:
  "onBlockCompleted b w =
     (if block_breakthrough b \<or>
         (\<exists>c l. opportunityContext b = Some c \<and> engagementLevel c = Some l \<and> 8 \<le> l)
      then w\<lparr>hostTimeouts := hostTimeouts w @ [([StrategicAnalysis], 5000)],
             trace := trace w @
               [Logged Debug
                  ''Significant event detected - triggering immediate strategic analysis'' [],
                SetTimeout [StrategicAnalysis] 5000]\<rparr>
      else w)"
  unfolding onBlockCompleted_def engagementAtLeast8_iff
  by (simp add: prims)

lemma onProjectCreated_eq:
  "onProjectCreated p w =
     w\<lparr>hostTimeouts := hostTimeouts w @ [([StrategicAnalysis, OpportunityScanning], 10000)],
       trace := trace w @
         [Logged Info ''New project detected: {} - scheduling initial analysis'' [S p],
          SetTimeout [StrategicAnalysis, OpportunityScanning] 10000]\<rparr>"
  by (simp add: onProjectCreated_def prims)

lemma onStrategyEvolved_eq:
  "onStrategyEvolved p n w =
     (if \<exists>k. n = Some k \<and> 3 \<le> k
      then w\<lparr>hostTimeouts := hostTimeouts w @ [([RiskDetection], 3000)],
             trace := trace w @
               [Logged Debug ''Significant strategy evolution - triggering risk detection'' [],
                SetTimeout [RiskDetection] 3000]\<rparr>
      else w)"
  unfolding onStrategyEvolved_def tasksAdded_iff
  by (simp add: prims)

lemma fire_last_timeout:
  "hostTimeouts w' = hostTimeouts w @ [(js, d)] \<Longrightarrow>
   exec en (FireTimeout (length (hostTimeouts w))) w' =
     runJobs en js (w'\<lparr>hostTimeouts := hostTimeouts w\<rparr>)"
  by simp

subsection \<open>Derived metrics\<close>

lemma metrics_empty:
  "snap_learningHistory s = Some h \<Longrightarrow> completedTopics h = Some [] \<Longrightarrow>
   calculateSystemMetrics en s w = (zeroMetrics, w)"
  by (simp add: calculateSystemMetrics_def zeroMetrics_def)

lemma metrics_average:
  assumes "snap_learningHistory s = Some h" "completedTopics h = Some entries"
    "entries \<noteq> []" "those entries = Some topics"
  shows "averageDifficulty (fst (calculateSystemMetrics en s w)) =
           divideByLength (foldl numAdd (Num 0) (map difficultyOr3 topics)) (length topics)"
    and "metrics_error (fst (calculateSystemMetrics en s w)) = None"
    and "totalCompletedTasks (fst (calculateSystemMetrics en s w)) = length entries"
  using assms
  by (simp_all add: calculateSystemMetrics_def zeroMetrics_def Let_def split_beta
      split: option.splits)

lemma ilog2_small: "n < 2 \<Longrightarrow> ilog2 n = 0"
  by (simp add: ilog2.simps)

lemma ilog2_step: "2 \<le> n \<Longrightarrow> ilog2 n = Suc (ilog2 (n div 2))"
  by (subst ilog2.simps) simp

text \<open>Rounding a positive rational in the normal range, step by step.\<close>

lemma toDouble_normal:
  assumes "0 < q" "exponentOf q = e" "- 1022 \<le> e"
    and "roundHalfEven (q / pow2 (e - 52)) = n"
    and "of_int n * pow2 (e - 52) = r" "r < pow2 1024"
  shows "toDouble q = Num r"
proof -
  from assms(1) have a: "\<bar>q\<bar> = q" by simp
  from assms(2,3) have m: "max (exponentOf q) (- 1022) = e" by simp
  show ?thesis
    unfolding toDouble_def Let_def a m using assms(1,4,5,6) by simp
qed

lemma toDouble_1: "toDouble 1 = Num 1"
  by (rule toDouble_normal [where e = 0 and n = 4503599627370496])
    (simp_all add: exponentOf_def roundHalfEven_def pow2_def ilog2_small ilog2_step Let_def)

lemma toDouble_3: "toDouble 3 = Num 3"
  by (rule toDouble_normal [where e = 1 and n = 6755399441055744])
    (simp_all add: exponentOf_def roundHalfEven_def pow2_def ilog2_small ilog2_step Let_def)

lemma toDouble_5: "toDouble 5 = Num 5"
  by (rule toDouble_normal [where e = 2 and n = 5629499534213120])
    (simp_all add: exponentOf_def roundHalfEven_def pow2_def ilog2_small ilog2_step Let_def)

lemma toDouble_5_thirds: "toDouble (5 / 3) = Num (7505999378950827 / 4503599627370496)"
  by (rule toDouble_normal [where e = 0 and n = 7505999378950827])
    (simp_all add: exponentOf_def roundHalfEven_def pow2_def ilog2_small ilog2_step Let_def)

text \<open>The mean is computed in doubles: for the difficulties 1, 2 and 2 the sum 5 is exact and
  the quotient is the double nearest to 5/3.\<close>

lemma metrics_rounded_mean:
  "averageDifficulty
     (fst (calculateSystemMetrics en
        (snapshotOf [Some (topicOf (Some (Num 1))), Some (topicOf (Some (Num 2))),
                     Some (topicOf (Some (Num 2)))]) w)) =
   Num (7505999378950827 / 4503599627370496)"
proof -
  have h: "snap_learningHistory (snapshotOf es) = Some \<lparr>content = [], completedTopics = Some es\<rparr>"
    for es
    by (simp add: snapshotOf_def)
  have "averageDifficulty
     (fst (calculateSystemMetrics en
        (snapshotOf [Some (topicOf (Some (Num 1))), Some (topicOf (Some (Num 2))),
                     Some (topicOf (Some (Num 2)))]) w)) =
    divideByLength
      (foldl numAdd (Num 0)
         (map difficultyOr3 [topicOf (Some (Num 1)), topicOf (Some (Num 2)), topicOf (Some (Num 2))]))
      3"
    using metrics_average(1)
      [OF h, where entries = "[Some (topicOf (Some (Num 1))), Some (topicOf (Some (Num 2))),
                     Some (topicOf (Some (Num 2)))]"
         and topics = "[topicOf (Some (Num 1)), topicOf (Some (Num 2)), topicOf (Some (Num 2))]"]
    by (simp add: numeral_3_eq_3)
  also have "\<dots> = Num (7505999378950827 / 4503599627370496)"
    by (simp add: difficultyOr3_def falsy_def topicOf_def toDouble_1 toDouble_3 toDouble_5
        toDouble_5_thirds)
  finally show ?thesis .
qed

subsection \<open>The archiving throttle and the last-check note\<close>

lemma throttled_iff:
  "throttled (Some t) now \<longleftrightarrow> t \<noteq> 0 \<and> now - t < 30000"
  by (simp add: throttled_def)

lemma archiving_throttled:
  "throttled (lastArchivingAttempt w) (clock en (ticks w)) \<Longrightarrow>
   performArchiving en w =
     (None, w\<lparr>ticks := Suc (ticks w),
              trace := trace w @
                [Logged Debug ''SystemClock: Archiving throttled - attempted too recently'' []]\<rparr>)"
  by (simp add: performArchiving_def performArchiving_try_def caught_def prims)

lemma attempt_noArchivingNeeded [simp]:
  "lastArchivingAttempt (noArchivingNeeded en w) = lastArchivingAttempt w"
  by (simp add: noArchivingNeeded_def Let_def split_beta)

lemma attempt_archiveNow [simp]:
  "lastArchivingAttempt (snd (archiveNow en p w)) = lastArchivingAttempt w"
  by (simp add: archiveNow_def Let_def split_beta split: sum.splits)

lemma attempt_caught [simp]:
  "lastArchivingAttempt (snd (caught m c r)) = lastArchivingAttempt (snd r)"
  by (simp add: caught_def split: prod.splits option.splits)

lemma archiving_not_throttled:
  "\<not> throttled (lastArchivingAttempt w) (clock en (ticks w)) \<Longrightarrow>
   lastArchivingAttempt (snd (performArchiving en w)) = Some (clock en (ticks w))"
  by (simp add: performArchiving_def performArchiving_try_def Let_def split_beta
      split: sum.splits)

lemma first_attempt:
  "lastArchivingAttempt (snd (performArchiving (envAt 100000) (constructor ttyEnv))) = Some 100000"
  by (simp add: archiving_not_throttled throttled_def constructor_fields envAt_def)

lemma shouldLog_iff:
  "shouldLog lastCheck now \<longleftrightarrow>
     lastCheck = None \<or> (\<exists>c. lastCheck = Some c \<and> 6 * 60 * 60 * 1000 < now - c)"
  by (cases lastCheck) (simp_all add: shouldLog_def)

lemma noArchivingNeeded_eq:
  "noArchivingNeeded en w =
     w\<lparr>ticks := Suc (ticks w),
       lastAnalysis := map_set ''data_archiving_check'' (clock en (ticks w)) (lastAnalysis w),
       trace := trace w @
         (if shouldLog (map_of (lastAnalysis w) ''data_archiving_check'') (clock en (ticks w))
          then [noNeedNote] else [])\<rparr>"
  by (simp add: noArchivingNeeded_def noNeedNote_def Let_def prims)

lemma archiving_no_need:
  assumes "\<not> throttled (lastArchivingAttempt w) (clock en (ticks w))"
    and "requireActiveProject en = Inr p"
    and "assessArchiveNeeds en p = Inr False"
  shows "performArchiving en w =
     (None,
      w\<lparr>ticks := Suc (Suc (ticks w)),
        lastArchivingAttempt := Some (clock en (ticks w)),
        lastAnalysis :=
          map_set ''data_archiving_check'' (clock en (Suc (ticks w))) (lastAnalysis w),
        trace := trace w @
          [Logged Debug ''SystemClock: Performing data archiving check...'' [],
           RequireActiveProject, AssessArchiveNeeds p] @
          (if shouldLog (map_of (lastAnalysis w) ''data_archiving_check'') (clock en (Suc (ticks w)))
           then [noNeedNote] else [])\<rparr>)"
  using assms
  by (simp add: performArchiving_def performArchiving_try_def caught_def noArchivingNeeded_eq
      Let_def prims)

subsection \<open>Counting collaborator calls\<close>

lemma filter_loadSchedules:
  "quietOn P \<Longrightarrow> filter P (trace (snd (loadSchedules en p t ds w))) = filter P (trace w)"
  by (induction ds arbitrary: w)
    (simp_all add: Let_def split_beta quietOn_def split: sum.splits option.splits)

lemma filter_metrics:
  "quietOn P \<Longrightarrow> filter P (trace (snd (calculateSystemMetrics en s w))) = filter P (trace w)"
  by (simp add: calculateSystemMetrics_def Let_def split_beta quietOn_def split: option.splits)

lemma filter_gather:
  "quietOn P \<Longrightarrow> filter P (trace (snd (gatherSystemState en p w))) = filter P (trace w)"
  by (simp add: gatherSystemState_def gatherFailed_def Let_def split_beta
      filter_loadSchedules filter_metrics split: sum.splits)
    (simp add: quietOn_def)

lemma ticks_loadSchedules [simp]: "ticks (snd (loadSchedules en p t ds w)) = ticks w"
  by (induction ds arbitrary: w)
    (simp_all add: Let_def split_beta split: sum.splits option.splits)

lemma ticks_metrics: "ticks w \<le> ticks (snd (calculateSystemMetrics en s w))"
  by (simp add: calculateSystemMetrics_def Let_def split_beta split: option.splits)

lemma ticks_gather: "ticks w \<le> ticks (snd (gatherSystemState en p w))"
  by (auto simp add: gatherSystemState_def gatherFailed_def Let_def split_beta
      split: sum.splits intro!: order_trans [OF _ ticks_metrics])

lemma quiet_provider [simp]: "quietOn isProviderCall"
  by (simp add: quietOn_def isProviderCall_def)

lemma quiet_assess [simp]: "quietOn isAssessCall"
  by (simp add: quietOn_def isAssessCall_def)

lemma providerCalls_prims [simp]:
  "providerCalls (eff e w) = providerCalls w + (if isProviderCall e then 1 else 0)"
  "providerCalls (logger l m a w) = providerCalls w"
  "providerCalls (snd (readClock en w)) = providerCalls w"
  "providerCalls (setLastAnalysis k t w) = providerCalls w"
  "providerCalls (logError c e' w) = providerCalls w"
  "providerCalls (snd (gatherSystemState en p w)) = providerCalls w"
  "providerCalls (w\<lparr>lastArchivingAttempt := x\<rparr>) = providerCalls w"
  by (simp_all add: providerCalls_def filter_gather isProviderCall_def)

lemma assessCalls_prims [simp]:
  "assessCalls (eff e w) = assessCalls w + (if isAssessCall e then 1 else 0)"
  "assessCalls (logger l m a w) = assessCalls w"
  "assessCalls (snd (readClock en w)) = assessCalls w"
  "assessCalls (setLastAnalysis k t w) = assessCalls w"
  "assessCalls (logError c e' w) = assessCalls w"
  "assessCalls (snd (gatherSystemState en p w)) = assessCalls w"
  "assessCalls (w\<lparr>lastArchivingAttempt := x\<rparr>) = assessCalls w"
  by (simp_all add: assessCalls_def filter_gather isAssessCall_def)

lemma isProviderCall_simps [simp]:
  "isProviderCall (PerformBackgroundAnalysis s t)"
  "isProviderCall (PerformBackgroundReflection s)"
  "isProviderCall (ArchiverPerformArchiving p)"
  "\<not> isProviderCall RequireActiveProject"
  "\<not> isProviderCall (AssessArchiveNeeds p)"
  "\<not> isProviderCall (Emit tp pl)"
  "\<not> isProviderCall (Logged l m a)"
  "\<not> isProviderCall (LogError c e)"
  by (simp_all add: isProviderCall_def)

lemma isAssessCall_simps [simp]:
  "\<not> isAssessCall (PerformBackgroundAnalysis s t)"
  "\<not> isAssessCall (PerformBackgroundReflection s)"
  "\<not> isAssessCall (ArchiverPerformArchiving p)"
  "\<not> isAssessCall RequireActiveProject"
  "isAssessCall (AssessArchiveNeeds p)"
  "\<not> isAssessCall (Emit tp pl)"
  "\<not> isAssessCall (Logged l m a)"
  "\<not> isAssessCall (LogError c e)"
  by (simp_all add: isAssessCall_def)

lemmas analysis_defs =
  performStrategicAnalysis_def performStrategicAnalysis_try_def
  performRiskDetection_def performRiskDetection_try_def
  performOpportunityScanning_def performOpportunityScanning_try_def
  performIdentityReflection_def performIdentityReflection_try_def caught_def


lemma analysis_one_call:
  assumes "requireActiveProject en = Inr p" "j \<noteq> DataArchiving"
  shows "providerCalls (snd (runJob en j w)) = providerCalls w + 1"
    and "assessCalls (snd (runJob en j w)) = assessCalls w"
  using assms
  by (cases j; simp add: analysis_defs Let_def split_beta split: sum.splits option.splits)+

lemma analysis_registry:
  assumes "requireActiveProject en = Inr p" "j \<noteq> DataArchiving"
  shows "lastAnalysis (snd (runJob en j w)) =
          (case providerResult en j (fst (gatherSystemState en p (entered j w))) of
             Inl e \<Rightarrow> lastAnalysis w
           | Inr r \<Rightarrow>
               map_set (jobKey j) (clock en (ticks (snd (gatherSystemState en p (entered j w)))))
                 (lastAnalysis w))"
  using assms
  by (cases j; simp add: analysis_defs Let_def split_beta split: sum.splits option.splits)

lemma ticks_entered [simp]: "ticks (entered j w) = ticks w"
  by (cases j) simp_all

lemma analysis_success:
  assumes "requireActiveProject en = Inr p" "j \<noteq> DataArchiving"
    and "\<forall>s. \<exists>r. providerResult en j s = Inr r"
  shows "\<exists>n \<ge> ticks w.
           lastAnalysis (snd (runJob en j w)) = map_set (jobKey j) (clock en n) (lastAnalysis w)"
proof -
  let ?g = "gatherSystemState en p (entered j w)"
  from assms(3) obtain r where "providerResult en j (fst ?g) = Inr r" by blast
  with analysis_registry [OF assms(1,2), of w]
  have "lastAnalysis (snd (runJob en j w)) =
          map_set (jobKey j) (clock en (ticks (snd ?g))) (lastAnalysis w)"
    by simp
  moreover have "ticks w \<le> ticks (snd ?g)"
    using ticks_gather [of "entered j w" en p] by simp
  ultimately show ?thesis by blast
qed

lemma analysis_failure:
  assumes "requireActiveProject en = Inr p" "j \<noteq> DataArchiving"
    and "\<forall>s. \<exists>e. providerResult en j s = Inl e"
  shows "lastAnalysis (snd (runJob en j w)) = lastAnalysis w"
proof -
  let ?g = "gatherSystemState en p (entered j w)"
  from assms(3) obtain e where "providerResult en j (fst ?g) = Inl e" by blast
  with analysis_registry [OF assms(1,2), of w] show ?thesis by simp
qed

lemma trigger_eq:
  "triggerImmediateAnalysis en t w =
     (case tagJob t of
        Some j \<Rightarrow> runJob en j (logger Debug ''Triggering immediate {} analysis'' [S t] w)
      | None \<Rightarrow>
          (None,
           logger Err ''Unknown analysis type: {}'' [S t]
             (logger Debug ''Triggering immediate {} analysis'' [S t] w)))"
  by (simp add: triggerImmediateAnalysis_def tagJob_def Let_def)



lemma archive_calls:
  "providerCalls (snd (performArchiving en w)) =
     providerCalls w +
       (if \<not> throttled (lastArchivingAttempt w) (clock en (ticks w)) \<and>
           (\<exists>p. requireActiveProject en = Inr p \<and> assessArchiveNeeds en p = Inr True)
        then 1 else 0)"
  "assessCalls (snd (performArchiving en w)) =
     assessCalls w +
       (if \<not> throttled (lastArchivingAttempt w) (clock en (ticks w)) \<and>
           (\<exists>p. requireActiveProject en = Inr p)
        then 1 else 0)"
  by (auto simp add: performArchiving_def performArchiving_try_def caught_def archiveNow_def
      noArchivingNeeded_def Let_def split_beta split: sum.splits)



lemma providerCalls_constructor [simp]: "providerCalls (constructor en) = 0"
  by (simp add: constructor_def setupEventListeners_def Let_def prims providerCalls_def
      isProviderCall_def)

lemma assessCalls_constructor [simp]: "assessCalls (constructor en) = 0"
  by (simp add: constructor_def setupEventListeners_def Let_def prims assessCalls_def
      isAssessCall_def)

subsection \<open>What the catch clause of a body does\<close>










lemma filter_loads [simp]: "filter isGatherFailureLog (map (\<lambda>i. LoadProjectData p (f i)) ds) = []"
  by (induction ds) (simp_all add: isGatherFailureLog_def)



lemma quiet_logError [simp]: "quietOn isLogError"
  by (simp add: quietOn_def isLogError_def)



lemma reachable_run: "reachable w \<Longrightarrow> reachable (run steps w)"
  by (induction steps arbitrary: w) (auto simp add: reachable.step)


section \<open>The claims\<close>




text \<open>
  C2 (as amended). When the last attempt that passed the throttle was recorded at a time
  \<open>t\<close> (other than 0) and the archiving body is invoked less than 30 seconds after \<open>t\<close>, the
  invocation returns at once: it reads the clock, writes one debug line, and nothing else
  changes (no attempt time recorded, no project resolved, no archiver call, no registry
  entry, no event). An invocation 30 seconds or more after \<open>t\<close> records its own start time
  as the new attempt time. Hence an invocation either leaves the recorded attempt time as it was,
  or records its own start time, which is then at least 30 seconds after \<open>t\<close>.
\<close>

theorem archiving_throttle:
  "lastArchivingAttempt w = Some t \<Longrightarrow> t \<noteq> 0 \<Longrightarrow>
   (clock en (ticks w) - t < 30000 \<longrightarrow>
      performArchiving en w =
        (None, w\<lparr>ticks := Suc (ticks w),
                 trace := trace w @
                   [Logged Debug ''SystemClock: Archiving throttled - attempted too recently'' []]\<rparr>)) \<and>
   (30000 \<le> clock en (ticks w) - t \<longrightarrow>
      lastArchivingAttempt (snd (performArchiving en w)) = Some (clock en (ticks w))) \<and>
   (lastArchivingAttempt (snd (performArchiving en w)) = Some t \<or>
    lastArchivingAttempt (snd (performArchiving en w)) = Some (clock en (ticks w)) \<and>
    t + 30000 \<le> clock en (ticks w))"
proof (cases "clock en (ticks w) - t < 30000")
  case True
  assume a: "lastArchivingAttempt w = Some t" "t \<noteq> 0"
  with True have "throttled (lastArchivingAttempt w) (clock en (ticks w))"
    by (simp add: throttled_iff)
  from archiving_throttled [OF this] a True show ?thesis by simp
next
  case False
  assume a: "lastArchivingAttempt w = Some t" "t \<noteq> 0"
  with False have "\<not> throttled (lastArchivingAttempt w) (clock en (ticks w))"
    by (simp add: throttled_iff)
  from archiving_not_throttled [OF this] False show ?thesis by simp
qed

theorem archiving_throttle_witness:
  "lastArchivingAttempt (snd (performArchiving (envAt 100000) (constructor ttyEnv))) = Some 100000 \<and>
   performArchiving (envAt 120000) (snd (performArchiving (envAt 100000) (constructor ttyEnv))) =
     (None, (snd (performArchiving (envAt 100000) (constructor ttyEnv)))
        \<lparr>ticks := Suc (ticks (snd (performArchiving (envAt 100000) (constructor ttyEnv)))),
         trace := trace (snd (performArchiving (envAt 100000) (constructor ttyEnv))) @
           [Logged Debug ''SystemClock: Archiving throttled - attempted too recently'' []]\<rparr>) \<and>
   lastArchivingAttempt
     (snd (performArchiving (envAt 130000)
        (snd (performArchiving (envAt 100000) (constructor ttyEnv))))) = Some 130000"
  using archiving_throttle [OF first_attempt, of "envAt 120000"]
    archiving_throttle [OF first_attempt, of "envAt 130000"] first_attempt
  by (simp add: envAt_def)

text \<open>C2 as first stated, for any two invocations less than 30 seconds apart, fails: of
  three invocations at 100, 120 and 140 seconds the second is throttled and leaves the
  attempt time at 100 seconds, so the third, 20 seconds after the second, passes the
  throttle and asks the archiver.\<close>

theorem archiving_throttle_counterexample:
  "lastArchivingAttempt
     (snd (performArchiving (envAt 120000)
        (snd (performArchiving (envAt 100000) (constructor ttyEnv))))) = Some 100000 \<and>
   (140000::int) - 120000 < 30000 \<and>
   lastArchivingAttempt
     (snd (performArchiving (envAt 140000)
        (snd (performArchiving (envAt 120000)
           (snd (performArchiving (envAt 100000) (constructor ttyEnv))))))) = Some 140000 \<and>
   count_list
     (trace (snd (performArchiving (envAt 120000)
        (snd (performArchiving (envAt 100000) (constructor ttyEnv))))))
     (AssessArchiveNeeds ''p1'') = 1 \<and>
   count_list
     (trace (snd (performArchiving (envAt 140000)
        (snd (performArchiving (envAt 120000)
           (snd (performArchiving (envAt 100000) (constructor ttyEnv))))))))
     (AssessArchiveNeeds ''p1'') = 2"
  by (simp add: body_defs envAt_def ttyEnv_def constructor_def setupEventListeners_def
      Let_def split_beta prims)

text \<open>
  C3 (as amended). When an archiving attempt passes the throttle, resolves the project and
  is told that no archiving is needed, it stores the current time under the last-check key
  on every such check, and it logs the note exactly when no last-check time was stored or
  the stored last check lies more than 6 hours back. The comparison is with the last
  check, whether or not that check logged the note.
\<close>

theorem no_archiving_needed_note:
  "\<not> throttled (lastArchivingAttempt w) (clock en (ticks w)) \<Longrightarrow>
   requireActiveProject en = Inr p \<Longrightarrow>
   assessArchiveNeeds en p = Inr False \<Longrightarrow>
   fst (performArchiving en w) = None \<and>
   lastAnalysis (snd (performArchiving en w)) =
     map_set ''data_archiving_check'' (clock en (Suc (ticks w))) (lastAnalysis w) \<and>
   map_of (lastAnalysis (snd (performArchiving en w))) ''data_archiving_check'' =
     Some (clock en (Suc (ticks w))) \<and>
   trace (snd (performArchiving en w)) =
     trace w @
     [Logged Debug ''SystemClock: Performing data archiving check...'' [],
      RequireActiveProject, AssessArchiveNeeds p] @
     (if map_of (lastAnalysis w) ''data_archiving_check'' = None \<or>
         (\<exists>c. map_of (lastAnalysis w) ''data_archiving_check'' = Some c \<and>
              6 * 60 * 60 * 1000 < clock en (Suc (ticks w)) - c)
      then [noNeedNote] else [])"
  by (simp add: archiving_no_need map_of_map_set shouldLog_iff)

theorem no_archiving_needed_note_witness:
  "\<not> throttled (lastArchivingAttempt (constructor ttyEnv)) (clock (envAt 1000000) (ticks (constructor ttyEnv))) \<and>
   requireActiveProject (envAt 1000000) = Inr ''p1'' \<and>
   assessArchiveNeeds (envAt 1000000) ''p1'' = Inr False \<and>
   lastAnalysis (snd (performArchiving (envAt 1000000) (constructor ttyEnv))) =
     [(''data_archiving_check'', 1000000)] \<and>
   trace (snd (performArchiving (envAt 1000000) (constructor ttyEnv))) =
     trace (constructor ttyEnv) @
     [Logged Debug ''SystemClock: Performing data archiving check...'' [],
      RequireActiveProject, AssessArchiveNeeds ''p1'', noNeedNote] \<and>
   lastAnalysis
     (snd (performArchiving (envAt 19000000)
        (snd (performArchiving (envAt 1000000) (constructor ttyEnv))))) =
     [(''data_archiving_check'', 19000000)] \<and>
   trace
     (snd (performArchiving (envAt 19000000)
        (snd (performArchiving (envAt 1000000) (constructor ttyEnv))))) =
     trace (snd (performArchiving (envAt 1000000) (constructor ttyEnv))) @
     [Logged Debug ''SystemClock: Performing data archiving check...'' [],
      RequireActiveProject, AssessArchiveNeeds ''p1'']"
proof -
  let ?c = "constructor ttyEnv"
  let ?w1 = "snd (performArchiving (envAt 1000000) ?c)"
  have a: "\<not> throttled (lastArchivingAttempt ?c) (clock (envAt 1000000) (ticks ?c))"
    by (simp add: throttled_def constructor_fields)
  have b: "requireActiveProject (envAt t) = Inr ''p1''" for t
    by (simp add: envAt_def ttyEnv_def)
  have c: "assessArchiveNeeds (envAt t) ''p1'' = Inr False" for t
    by (simp add: envAt_def ttyEnv_def)
  have d: "clock (envAt t) n = t" for t n
    by (simp add: envAt_def)
  have first:
    "lastAnalysis ?w1 = [(''data_archiving_check'', 1000000)] \<and>
     trace ?w1 =
       trace ?c @
       [Logged Debug ''SystemClock: Performing data archiving check...'' [],
        RequireActiveProject, AssessArchiveNeeds ''p1'', noNeedNote]"
    using no_archiving_needed_note [OF a b c] by (simp add: constructor_fields d)
  have e: "\<not> throttled (lastArchivingAttempt ?w1) (clock (envAt 19000000) (ticks ?w1))"
    by (simp add: archiving_not_throttled [OF a] throttled_def d)
  have second:
    "lastAnalysis (snd (performArchiving (envAt 19000000) ?w1)) =
       [(''data_archiving_check'', 19000000)] \<and>
     trace (snd (performArchiving (envAt 19000000) ?w1)) =
       trace ?w1 @
       [Logged Debug ''SystemClock: Performing data archiving check...'' [],
        RequireActiveProject, AssessArchiveNeeds ''p1'']"
    using no_archiving_needed_note [OF e b c] first by (simp add: d)
  from a b c first second show ?thesis by simp
qed

text \<open>C3 as first stated, with the note due once the last note is older than 6 hours,
  fails: of three checks 5 hours apart the first logs the note, the second does not, and
  the third, 10 hours after the only note, does not either, since the second check moved
  the last-check time.\<close>

theorem no_archiving_needed_note_counterexample:
  "count_list (trace (snd (performArchiving (envAt 1000000) (constructor ttyEnv)))) noNeedNote = 1 \<and>
   count_list
     (trace (snd (performArchiving (envAt 19000000)
        (snd (performArchiving (envAt 1000000) (constructor ttyEnv)))))) noNeedNote = 1 \<and>
   (6 * 60 * 60 * 1000 :: int) < 37000000 - 1000000 \<and>
   count_list
     (trace (snd (performArchiving (envAt 37000000)
        (snd (performArchiving (envAt 19000000)
           (snd (performArchiving (envAt 1000000) (constructor ttyEnv)))))))) noNeedNote = 1 \<and>
   lastAnalysis
     (snd (performArchiving (envAt 37000000)
        (snd (performArchiving (envAt 19000000)
           (snd (performArchiving (envAt 1000000) (constructor ttyEnv))))))) =
     [(''data_archiving_check'', 37000000)]"
  by (simp add: body_defs envAt_def ttyEnv_def constructor_def setupEventListeners_def
      noNeedNote_def Let_def split_beta prims)

text \<open>
  C4. A clock that is running stays running under every operation but \<^verbatim>\<open>stop()\<close>, and
  \<^verbatim>\<open>start()\<close> on a running clock only logs a warning: the timer table of the host, the
  pending one-off timers and the tracked timers are what they were. In every state an
  instance can reach, no two recurring timers of the host run the same job, and the tracked
  timers are exactly the timers of the host.
\<close>

theorem start_twice_no_op:
  "isRunning (start en cfg w) \<and>
   (a \<noteq> Stop \<and> isRunning w \<longrightarrow> isRunning (exec en a w)) \<and>
   (isRunning w \<longrightarrow>
      start en cfg w = logger Warn ''SystemClock already running'' [] w \<and>
      hostIntervals (start en cfg w) = hostIntervals w \<and>
      hostTimeouts (start en cfg w) = hostTimeouts w \<and>
      intervals (start en cfg w) = intervals w) \<and>
   (reachable w \<longrightarrow>
      distinct (map (\<lambda>h. fst (snd h)) (hostIntervals w)) \<and>
      intervals w = map tracked (hostIntervals w))"
proof (intro conjI impI)
  show "isRunning (start en cfg w)" by (rule isRunning_start)
next
  assume "a \<noteq> Stop \<and> isRunning w"
  then show "isRunning (exec en a w)" by (simp add: running_kept)
next
  assume r: "isRunning w"
  then show "start en cfg w = logger Warn ''SystemClock already running'' [] w"
    by (rule start_running)
  from r show "hostIntervals (start en cfg w) = hostIntervals w"
    and "hostTimeouts (start en cfg w) = hostTimeouts w"
    and "intervals (start en cfg w) = intervals w"
    by (simp_all add: start_running)
next
  assume "reachable w"
  then have "timers_ok w" by (rule reachable_timers_ok)
  then show "distinct (map (\<lambda>h. fst (snd h)) (hostIntervals w))"
    and "intervals w = map tracked (hostIntervals w)"
    by (simp_all add: timers_ok_def)
qed

theorem start_twice_no_op_witness:
  "isRunning (start ttyEnv noConfig (constructor ttyEnv)) \<and>
   reachable (start ttyEnv noConfig (constructor ttyEnv)) \<and>
   Trigger ''risk'' \<noteq> Stop \<and>
   isRunning (exec ttyEnv (Trigger ''risk'') (start ttyEnv noConfig (constructor ttyEnv))) \<and>
   hostIntervals (start ttyEnv noConfig (start ttyEnv noConfig (constructor ttyEnv))) =
     [(0, StrategicAnalysis, 86400000), (1, RiskDetection, 43200000),
      (2, OpportunityScanning, 21600000), (3, IdentityReflection, 604800000),
      (4, DataArchiving, 2592000000)] \<and>
   distinct (map (\<lambda>h. fst (snd h)) (hostIntervals (start ttyEnv noConfig (constructor ttyEnv))))"
  using start_twice_no_op [of ttyEnv noConfig "constructor ttyEnv" "Trigger ''risk''"]
    start_twice_no_op [of ttyEnv noConfig "start ttyEnv noConfig (constructor ttyEnv)" "Trigger ''risk''"]
    reachable_started [of ttyEnv noConfig] start_tty_timers
  by simp

text \<open>
  C5. In every state an instance can reach, after \<^verbatim>\<open>stop()\<close> the status reports
  \<open>running = False\<close> and no active timer, and the host holds no recurring timer. On a clock
  that is not running \<^verbatim>\<open>stop()\<close> changes nothing. On a running clock the effects of
  \<^verbatim>\<open>stop()\<close> are, in this order: the cancellation of every tracked timer, then the
  \<^verbatim>\<open>system:clock_stopped\<close> event, then the closing log line; no event is published among
  the cancellations.
\<close>

theorem stop_then_status:
  "(reachable w \<longrightarrow>
      status_isRunning (getStatus (stop en w)) = False \<and>
      activeIntervals (getStatus (stop en w)) = [] \<and>
      hostIntervals (stop en w) = []) \<and>
   (\<not> isRunning w \<longrightarrow> stop en w = w) \<and>
   (isRunning w \<longrightarrow>
      trace (stop en w) =
        trace w @ cancellations (intervals w) @
          [Emit ''system:clock_stopped'' (ClockStopped (clock en (ticks w))),
           Logged Info ''SystemClock stopped'' []] \<and>
      (\<forall>i \<in> snd ` set (intervals w). ClearInterval i \<in> set (cancellations (intervals w))) \<and>
      (\<forall>t p. Emit t p \<notin> set (cancellations (intervals w))))"
proof (intro conjI impI)
  assume r: "reachable w"
  then have ok: "timers_ok w" by (rule reachable_timers_ok)
  show "status_isRunning (getStatus (stop en w)) = False"
    by (simp add: getStatus_def stop_fields)
  from ok show "activeIntervals (getStatus (stop en w)) = []"
    by (auto simp add: getStatus_def stop_fields timers_ok_def)
  from ok show "hostIntervals (stop en w) = []"
    by (auto simp add: stop_hostIntervals timers_ok_def)
next
  assume "\<not> isRunning w" then show "stop en w = w" by (rule stop_stopped)
next
  assume "isRunning w"
  then show "trace (stop en w) =
        trace w @ cancellations (intervals w) @
          [Emit ''system:clock_stopped'' (ClockStopped (clock en (ticks w))),
           Logged Info ''SystemClock stopped'' []]"
    by (rule trace_stop)
next
  show "\<forall>i \<in> snd ` set (intervals w). ClearInterval i \<in> set (cancellations (intervals w))"
    by (simp add: cancellations_complete)
next
  show "\<forall>t p. Emit t p \<notin> set (cancellations (intervals w))"
    by (simp add: cancellations_no_emit)
qed

theorem stop_then_status_witness:
  "reachable (start ttyEnv noConfig (constructor ttyEnv)) \<and>
   status_isRunning (getStatus (stop ttyEnv (start ttyEnv noConfig (constructor ttyEnv)))) = False \<and>
   activeIntervals (getStatus (stop ttyEnv (start ttyEnv noConfig (constructor ttyEnv)))) = [] \<and>
   hostIntervals (stop ttyEnv (start ttyEnv noConfig (constructor ttyEnv))) = [] \<and>
   \<not> isRunning (constructor ttyEnv) \<and>
   stop ttyEnv (constructor ttyEnv) = constructor ttyEnv \<and>
   isRunning (start ttyEnv noConfig (constructor ttyEnv)) \<and>
   trace (stop ttyEnv (start ttyEnv noConfig (constructor ttyEnv))) =
     trace (start ttyEnv noConfig (constructor ttyEnv)) @
     cancellations (intervals (start ttyEnv noConfig (constructor ttyEnv))) @
     [Emit ''system:clock_stopped''
        (ClockStopped (clock ttyEnv (ticks (start ttyEnv noConfig (constructor ttyEnv))))),
      Logged Info ''SystemClock stopped'' []] \<and>
   intervals (start ttyEnv noConfig (constructor ttyEnv)) =
     [(''strategic_analysis'', 0), (''risk_detection'', 1), (''opportunity_scanning'', 2),
      (''identity_reflection'', 3), (''data_archiving'', 4)]"
proof -
  have tty: "isTTY ttyEnv" by (simp add: ttyEnv_def)
  have iv: "intervals (start ttyEnv noConfig (constructor ttyEnv)) =
     [(''strategic_analysis'', 0), (''risk_detection'', 1), (''opportunity_scanning'', 2),
      (''identity_reflection'', 3), (''data_archiving'', 4)]"
    by (simp add: start_def Let_def split_beta constructor_def setupEventListeners_def tty
        mergeConfig_def defaultConfig_def noConfig_def schedule_defs prims)
  show ?thesis
    using stop_then_status [of "start ttyEnv noConfig (constructor ttyEnv)" ttyEnv]
      stop_then_status [of "constructor ttyEnv" ttyEnv]
      reachable_started [of ttyEnv noConfig] constructor_stopped [of ttyEnv]
      isRunning_start [of ttyEnv noConfig "constructor ttyEnv"] iv
    by simp
qed

text \<open>
  C6. The part on the empty list holds: a snapshot whose list of completed items is empty
  yields all-zero metrics with no error marker (lemma \<open>metrics_empty\<close>). The part on the mean
  does not hold of the code: \<^verbatim>\<open>t.difficulty || 3\<close> is meant to give an item without the field
  the value 3, and it also replaces a difficulty that is present and 0. For the list of one
  item of difficulty 0 the metric is 3, where the mean of the per-item values, with only the
  absent ones counting 3, is 0.
\<close>

theorem metrics_zero_difficulty_counts_3:
  "averageDifficulty
     (fst (calculateSystemMetrics ttyEnv (snapshotOf [Some (topicOf (Some (Num 0)))])
        (constructor ttyEnv))) = Num 3 \<and>
   metrics_error
     (fst (calculateSystemMetrics ttyEnv (snapshotOf [Some (topicOf (Some (Num 0)))])
        (constructor ttyEnv))) = None \<and>
   specMeanDifficulty [Some 0] = 0 \<and>
   calculateSystemMetrics ttyEnv (snapshotOf []) (constructor ttyEnv) =
     (zeroMetrics, constructor ttyEnv)"
proof -
  have h: "snap_learningHistory (snapshotOf es) = Some \<lparr>content = [], completedTopics = Some es\<rparr>"
    for es
    by (simp add: snapshotOf_def)
  have "averageDifficulty
     (fst (calculateSystemMetrics ttyEnv (snapshotOf [Some (topicOf (Some (Num 0)))])
        (constructor ttyEnv))) =
    divideByLength (foldl numAdd (Num 0) (map difficultyOr3 [topicOf (Some (Num 0))])) 1"
    using metrics_average(1)
      [OF h, where entries = "[Some (topicOf (Some (Num 0)))]" and topics = "[topicOf (Some (Num 0))]"]
    by simp
  also have "\<dots> = Num 3"
    by (simp add: difficultyOr3_def falsy_def topicOf_def toDouble_3)
  finally have avg: "averageDifficulty
     (fst (calculateSystemMetrics ttyEnv (snapshotOf [Some (topicOf (Some (Num 0)))])
        (constructor ttyEnv))) = Num 3" .
  have err: "metrics_error
     (fst (calculateSystemMetrics ttyEnv (snapshotOf [Some (topicOf (Some (Num 0)))])
        (constructor ttyEnv))) = None"
    using metrics_average(2)
      [OF h, where entries = "[Some (topicOf (Some (Num 0)))]" and topics = "[topicOf (Some (Num 0))]"]
    by simp
  have spec: "specMeanDifficulty [Some 0] = 0"
    by (simp add: specMeanDifficulty_def)
  have empty: "calculateSystemMetrics ttyEnv (snapshotOf []) (constructor ttyEnv) =
     (zeroMetrics, constructor ttyEnv)"
    by (rule metrics_empty [OF h]) simp
  from avg err spec empty show ?thesis by simp
qed

text \<open>
  C7. A completed block schedules one one-off strategic analysis 5 seconds later exactly
  when it is a breakthrough or its engagement level is at least 8; a created project
  always schedules one one-off timer 10 seconds later that runs a strategic analysis and
  an opportunity scan; an evolved strategy schedules one one-off risk detection 3 seconds
  later exactly when at least 3 tasks were added. A handler does nothing else but log, and
  the timer, when it fires, runs the bodies it names once each.
\<close>

theorem event_handlers_schedule:
  "onBlockCompleted b w =
     (if block_breakthrough b \<or>
         (\<exists>c l. opportunityContext b = Some c \<and> engagementLevel c = Some l \<and> 8 \<le> l)
      then w\<lparr>hostTimeouts := hostTimeouts w @ [([StrategicAnalysis], 5000)],
             trace := trace w @
               [Logged Debug
                  ''Significant event detected - triggering immediate strategic analysis'' [],
                SetTimeout [StrategicAnalysis] 5000]\<rparr>
      else w) \<and>
   onProjectCreated p w =
     w\<lparr>hostTimeouts := hostTimeouts w @ [([StrategicAnalysis, OpportunityScanning], 10000)],
       trace := trace w @
         [Logged Info ''New project detected: {} - scheduling initial analysis'' [S p],
          SetTimeout [StrategicAnalysis, OpportunityScanning] 10000]\<rparr> \<and>
   onStrategyEvolved p n w =
     (if \<exists>k. n = Some k \<and> 3 \<le> k
      then w\<lparr>hostTimeouts := hostTimeouts w @ [([RiskDetection], 3000)],
             trace := trace w @
               [Logged Debug ''Significant strategy evolution - triggering risk detection'' [],
                SetTimeout [RiskDetection] 3000]\<rparr>
      else w) \<and>
   exec en (FireTimeout (length (hostTimeouts w))) (onProjectCreated p w) =
     snd (performOpportunityScanning en
            (snd (performStrategicAnalysis en
                    ((onProjectCreated p w)\<lparr>hostTimeouts := hostTimeouts w\<rparr>))))"
proof (intro conjI)
  show "exec en (FireTimeout (length (hostTimeouts w))) (onProjectCreated p w) =
     snd (performOpportunityScanning en
            (snd (performStrategicAnalysis en
                    ((onProjectCreated p w)\<lparr>hostTimeouts := hostTimeouts w\<rparr>))))"
    by (subst fire_last_timeout [where js = "[StrategicAnalysis, OpportunityScanning]" and d = 10000])
      (simp_all add: onProjectCreated_eq)
qed (rule onBlockCompleted_eq onProjectCreated_eq onStrategyEvolved_eq)+

theorem event_handlers_schedule_witness:
  "hostTimeouts (onBlockCompleted (engagedBlock 8) (constructor ttyEnv)) = [([StrategicAnalysis], 5000)] \<and>
   hostTimeouts (onBlockCompleted (engagedBlock 7) (constructor ttyEnv)) = [] \<and>
   hostTimeouts (onProjectCreated ''p1'' (constructor ttyEnv)) =
     [([StrategicAnalysis, OpportunityScanning], 10000)] \<and>
   hostTimeouts (onStrategyEvolved ''p1'' (Some 3) (constructor ttyEnv)) = [([RiskDetection], 3000)] \<and>
   hostTimeouts (onStrategyEvolved ''p1'' (Some 2) (constructor ttyEnv)) = [] \<and>
   hostTimeouts (onStrategyEvolved ''p1'' None (constructor ttyEnv)) = []"
  using event_handlers_schedule [of "engagedBlock 8" "constructor ttyEnv" "''p1''" "Some 3" ttyEnv]
    event_handlers_schedule [of "engagedBlock 7" "constructor ttyEnv" "''p1''" "Some 2" ttyEnv]
    event_handlers_schedule [of "engagedBlock 7" "constructor ttyEnv" "''p1''" None ttyEnv]
  by (simp add: engagedBlock_def constructor_fields)




text \<open>
  C9. Neither \<^verbatim>\<open>stop()\<close> nor \<^verbatim>\<open>start()\<close> touches the registry of last runs or the time of
  the last archiving attempt, so the status after a stop and a restart reports the registry
  it reported before; and no operation or timer callback ever removes a key of the registry.
\<close>

theorem registry_survives_lifecycle:
  "lastAnalysis (stop en w) = lastAnalysis w \<and>
   lastArchivingAttempt (stop en w) = lastArchivingAttempt w \<and>
   lastAnalysis (start en cfg w) = lastAnalysis w \<and>
   lastArchivingAttempt (start en cfg w) = lastArchivingAttempt w \<and>
   lastAnalyses (getStatus (start en' cfg (stop en w))) = lastAnalyses (getStatus w) \<and>
   registryKeys w \<subseteq> registryKeys (exec en a w)"
  by (simp add: stop_fields start_registry getStatus_def keys_exec)

theorem registry_survives_lifecycle_witness:
  "lastAnalysis (stop ttyEnv (snd (triggerImmediateAnalysis ttyEnv ''identity'' (constructor ttyEnv)))) =
     [(''identity_reflection'', 1002000)] \<and>
   lastAnalyses (getStatus (start ttyEnv noConfig
      (stop ttyEnv (snd (triggerImmediateAnalysis ttyEnv ''identity'' (constructor ttyEnv)))))) =
     [(''identity_reflection'', 1002000)]"
  using registry_survives_lifecycle
    [of ttyEnv "snd (triggerImmediateAnalysis ttyEnv ''identity'' (constructor ttyEnv))"
      noConfig ttyEnv Stop]
    identity_run
  by (simp add: getStatus_def)

text \<open>
  C10. On a host that is not an interactive terminal, \<^verbatim>\<open>start()\<close> switches periodic
  scheduling off whatever the caller asked for: the published configuration has
  \<open>enableBackgroundTicks = False\<close>, no recurring timer and no warm-up run is created for any
  job, and the status of a fresh clock lists no active timer. The event-driven and the
  manual triggers work on such a host after \<^verbatim>\<open>start()\<close>: each of the three event handlers
  schedules its one-off timer under its payload condition, such a timer runs its body
  when it fires, and the manual trigger runs the body of its job, which calls its provider
  once when a project is active, sets the registry entry of the job when the call
  returns, and for the archive tag asks the archiver when it passes the throttle.
\<close>

theorem embedded_start_schedules_nothing:
  "\<not> isTTY en \<Longrightarrow>
   hostIntervals (start en cfg w) = hostIntervals w \<and>
   hostTimeouts (start en cfg w) = hostTimeouts w \<and>
   intervals (start en cfg w) = intervals w \<and>
   activeIntervals (getStatus (start en cfg (constructor en))) = [] \<and>
   hostTimeouts (onProjectCreated p (start en cfg w)) =
     hostTimeouts w @ [([StrategicAnalysis, OpportunityScanning], 10000)] \<and>
   (\<not> isRunning w \<longrightarrow>
      start en cfg w =
        w\<lparr>isRunning := True, ticks := Suc (ticks w),
          trace := trace w @
            [Logged Info
               ''SystemClock starting in MCP mode (intervals disabled to prevent initialization timeout)'' [],
             Emit ''system:clock_started''
               (ClockStarted ((mergeConfig defaultConfig cfg)\<lparr>enableBackgroundTicks := False\<rparr>)
                  (clock en (ticks w))),
             Logged Info ''SystemClock started in MCP mode - Event-driven analysis only'' []]\<rparr>) \<and>
   hostTimeouts (onBlockCompleted b (start en cfg w)) =
     hostTimeouts w @
       (if block_breakthrough b \<or>
           (\<exists>c l. opportunityContext b = Some c \<and> engagementLevel c = Some l \<and> 8 \<le> l)
        then [([StrategicAnalysis], 5000)] else []) \<and>
   hostTimeouts (onStrategyEvolved p n (start en cfg w)) =
     hostTimeouts w @ (if \<exists>k. n = Some k \<and> 3 \<le> k then [([RiskDetection], 3000)] else []) \<and>
   (block_breakthrough b \<or>
    (\<exists>c l. opportunityContext b = Some c \<and> engagementLevel c = Some l \<and> 8 \<le> l) \<longrightarrow>
      exec en (FireTimeout (length (hostTimeouts w))) (onBlockCompleted b (start en cfg w)) =
        snd (performStrategicAnalysis en
               ((onBlockCompleted b (start en cfg w))\<lparr>hostTimeouts := hostTimeouts w\<rparr>))) \<and>
   ((\<exists>k. n = Some k \<and> 3 \<le> k) \<longrightarrow>
      exec en (FireTimeout (length (hostTimeouts w))) (onStrategyEvolved p n (start en cfg w)) =
        snd (performRiskDetection en
               ((onStrategyEvolved p n (start en cfg w))\<lparr>hostTimeouts := hostTimeouts w\<rparr>))) \<and>
   (tagJob t = Some j \<longrightarrow>
      triggerImmediateAnalysis en t (start en cfg w) =
        runJob en j (logger Debug ''Triggering immediate {} analysis'' [S t] (start en cfg w))) \<and>
   (\<forall>q. tagJob t = Some j \<and> j \<noteq> DataArchiving \<and> requireActiveProject en = Inr q \<longrightarrow>
      providerCalls (snd (triggerImmediateAnalysis en t (start en cfg w))) = providerCalls w + 1 \<and>
      ((\<forall>s. \<exists>r. providerResult en j s = Inr r) \<longrightarrow>
         (\<exists>m. lastAnalysis (snd (triggerImmediateAnalysis en t (start en cfg w))) =
                map_set (jobKey j) (clock en m) (lastAnalysis w)))) \<and>
   (\<forall>q. tagJob t = Some DataArchiving \<and> requireActiveProject en = Inr q \<and>
        \<not> throttled (lastArchivingAttempt w) (clock en (ticks (start en cfg w))) \<longrightarrow>
      assessCalls (snd (triggerImmediateAnalysis en t (start en cfg w))) = assessCalls w + 1)"
proof -
  assume mcp: "\<not> isTTY en"
  let ?ws = "start en cfg w"
  let ?wt = "logger Debug ''Triggering immediate {} analysis'' [S t] ?ws"
  note timers = start_mcp_timers [OF mcp, of cfg w]
  have calls: "providerCalls ?ws = providerCalls w" "assessCalls ?ws = assessCalls w"
    using mcp
    by (cases "isRunning w"; simp add: start_mcp start_running providerCalls_def assessCalls_def)+
  have wt [simp]: "providerCalls ?wt = providerCalls w" "assessCalls ?wt = assessCalls w"
    "lastAnalysis ?wt = lastAnalysis w" "lastArchivingAttempt ?wt = lastArchivingAttempt w"
    "ticks ?wt = ticks ?ws"
    by (simp_all add: calls start_registry)
  have lifecycle:
    "hostIntervals ?ws = hostIntervals w \<and>
     hostTimeouts ?ws = hostTimeouts w \<and>
     intervals ?ws = intervals w \<and>
     activeIntervals (getStatus (start en cfg (constructor en))) = [] \<and>
     hostTimeouts (onProjectCreated p ?ws) =
       hostTimeouts w @ [([StrategicAnalysis, OpportunityScanning], 10000)] \<and>
     (\<not> isRunning w \<longrightarrow>
        start en cfg w =
          w\<lparr>isRunning := True, ticks := Suc (ticks w),
            trace := trace w @
              [Logged Info
                 ''SystemClock starting in MCP mode (intervals disabled to prevent initialization timeout)'' [],
               Emit ''system:clock_started''
                 (ClockStarted ((mergeConfig defaultConfig cfg)\<lparr>enableBackgroundTicks := False\<rparr>)
                    (clock en (ticks w))),
               Logged Info ''SystemClock started in MCP mode - Event-driven analysis only'' []]\<rparr>)"
    using mcp
    by (simp add: start_mcp_timers start_mcp getStatus_def constructor_fields
        onProjectCreated_def setTimeout_def)
  have block: "hostTimeouts (onBlockCompleted b ?ws) =
     hostTimeouts w @
       (if block_breakthrough b \<or>
           (\<exists>c l. opportunityContext b = Some c \<and> engagementLevel c = Some l \<and> 8 \<le> l)
        then [([StrategicAnalysis], 5000)] else [])"
    by (subst onBlockCompleted_eq) (simp add: timers)
  have strategy: "hostTimeouts (onStrategyEvolved p n ?ws) =
     hostTimeouts w @ (if \<exists>k. n = Some k \<and> 3 \<le> k then [([RiskDetection], 3000)] else [])"
    by (subst onStrategyEvolved_eq) (simp add: timers)
  have block_fires:
    "block_breakthrough b \<or>
     (\<exists>c l. opportunityContext b = Some c \<and> engagementLevel c = Some l \<and> 8 \<le> l) \<longrightarrow>
      exec en (FireTimeout (length (hostTimeouts w))) (onBlockCompleted b ?ws) =
        snd (performStrategicAnalysis en
               ((onBlockCompleted b ?ws)\<lparr>hostTimeouts := hostTimeouts w\<rparr>))"
  proof
    assume "block_breakthrough b \<or>
      (\<exists>c l. opportunityContext b = Some c \<and> engagementLevel c = Some l \<and> 8 \<le> l)"
    with block have "hostTimeouts (onBlockCompleted b ?ws) =
      hostTimeouts w @ [([StrategicAnalysis], 5000)]"
      by simp
    from fire_last_timeout [OF this, of en] show "exec en (FireTimeout (length (hostTimeouts w)))
        (onBlockCompleted b ?ws) =
        snd (performStrategicAnalysis en
               ((onBlockCompleted b ?ws)\<lparr>hostTimeouts := hostTimeouts w\<rparr>))"
      by simp
  qed
  have strategy_fires:
    "(\<exists>k. n = Some k \<and> 3 \<le> k) \<longrightarrow>
      exec en (FireTimeout (length (hostTimeouts w))) (onStrategyEvolved p n ?ws) =
        snd (performRiskDetection en
               ((onStrategyEvolved p n ?ws)\<lparr>hostTimeouts := hostTimeouts w\<rparr>))"
  proof
    assume "\<exists>k. n = Some k \<and> 3 \<le> k"
    with strategy have "hostTimeouts (onStrategyEvolved p n ?ws) =
      hostTimeouts w @ [([RiskDetection], 3000)]"
      by simp
    from fire_last_timeout [OF this, of en] show "exec en (FireTimeout (length (hostTimeouts w)))
        (onStrategyEvolved p n ?ws) =
        snd (performRiskDetection en
               ((onStrategyEvolved p n ?ws)\<lparr>hostTimeouts := hostTimeouts w\<rparr>))"
      by simp
  qed
  have manual: "tagJob t = Some j \<longrightarrow> triggerImmediateAnalysis en t ?ws = runJob en j ?wt"
    by (simp add: trigger_eq)
  have analysis:
    "\<forall>q. tagJob t = Some j \<and> j \<noteq> DataArchiving \<and> requireActiveProject en = Inr q \<longrightarrow>
      providerCalls (snd (triggerImmediateAnalysis en t ?ws)) = providerCalls w + 1 \<and>
      ((\<forall>s. \<exists>r. providerResult en j s = Inr r) \<longrightarrow>
         (\<exists>m. lastAnalysis (snd (triggerImmediateAnalysis en t ?ws)) =
                map_set (jobKey j) (clock en m) (lastAnalysis w)))"
  proof (intro allI impI conjI)
    fix q
    assume a: "tagJob t = Some j \<and> j \<noteq> DataArchiving \<and> requireActiveProject en = Inr q"
    then have tr: "triggerImmediateAnalysis en t ?ws = runJob en j ?wt"
      by (simp add: trigger_eq)
    from a analysis_one_call(1) [of en q j ?wt]
    show "providerCalls (snd (triggerImmediateAnalysis en t ?ws)) = providerCalls w + 1"
      by (simp add: tr calls)
    assume "\<forall>s. \<exists>r. providerResult en j s = Inr r"
    with a analysis_success [of en q j ?wt]
    obtain m where "lastAnalysis (snd (runJob en j ?wt)) =
        map_set (jobKey j) (clock en m) (lastAnalysis w)"
      by (auto simp add: start_registry)
    then show "\<exists>m. lastAnalysis (snd (triggerImmediateAnalysis en t ?ws)) =
                map_set (jobKey j) (clock en m) (lastAnalysis w)"
      by (auto simp add: tr)
  qed
  have archive:
    "\<forall>q. tagJob t = Some DataArchiving \<and> requireActiveProject en = Inr q \<and>
        \<not> throttled (lastArchivingAttempt w) (clock en (ticks ?ws)) \<longrightarrow>
      assessCalls (snd (triggerImmediateAnalysis en t ?ws)) = assessCalls w + 1"
    using archive_calls(2) [of en ?wt] by (auto simp add: trigger_eq calls start_registry)
  from lifecycle have l1: "hostIntervals ?ws = hostIntervals w"
    and l2: "hostTimeouts ?ws = hostTimeouts w"
    and l3: "intervals ?ws = intervals w"
    and l4: "activeIntervals (getStatus (start en cfg (constructor en))) = []"
    and l5: "hostTimeouts (onProjectCreated p ?ws) =
       hostTimeouts w @ [([StrategicAnalysis, OpportunityScanning], 10000)]"
    and l6: "\<not> isRunning w \<longrightarrow>
        start en cfg w =
          w\<lparr>isRunning := True, ticks := Suc (ticks w),
            trace := trace w @
              [Logged Info
                 ''SystemClock starting in MCP mode (intervals disabled to prevent initialization timeout)'' [],
               Emit ''system:clock_started''
                 (ClockStarted ((mergeConfig defaultConfig cfg)\<lparr>enableBackgroundTicks := False\<rparr>)
                    (clock en (ticks w))),
               Logged Info ''SystemClock started in MCP mode - Event-driven analysis only'' []]\<rparr>"
    by blast+
  show ?thesis
    by (intro conjI l1 l2 l3 l4 l5 l6 block strategy block_fires strategy_fires manual analysis
        archive)
qed

theorem embedded_start_schedules_nothing_witness:
  "\<not> isTTY mcpEnv \<and>
   hostIntervals (start mcpEnv allTicks (constructor mcpEnv)) = [] \<and>
   hostTimeouts (start mcpEnv allTicks (constructor mcpEnv)) = [] \<and>
   intervals (start mcpEnv allTicks (constructor mcpEnv)) = [] \<and>
   activeIntervals (getStatus (start mcpEnv allTicks (constructor mcpEnv))) = [] \<and>
   hostTimeouts (onProjectCreated ''p1'' (start mcpEnv allTicks (constructor mcpEnv))) =
     [([StrategicAnalysis, OpportunityScanning], 10000)] \<and>
   hostTimeouts (onBlockCompleted (engagedBlock 8) (start mcpEnv allTicks (constructor mcpEnv))) =
     [([StrategicAnalysis], 5000)] \<and>
   hostTimeouts (onStrategyEvolved ''p1'' (Some 3) (start mcpEnv allTicks (constructor mcpEnv))) =
     [([RiskDetection], 3000)] \<and>
   exec mcpEnv (FireTimeout 0)
       (onBlockCompleted (engagedBlock 8) (start mcpEnv allTicks (constructor mcpEnv))) =
     snd (performStrategicAnalysis mcpEnv
            ((onBlockCompleted (engagedBlock 8) (start mcpEnv allTicks (constructor mcpEnv)))
               \<lparr>hostTimeouts := []\<rparr>)) \<and>
   exec mcpEnv (FireTimeout 0)
       (onStrategyEvolved ''p1'' (Some 3) (start mcpEnv allTicks (constructor mcpEnv))) =
     snd (performRiskDetection mcpEnv
            ((onStrategyEvolved ''p1'' (Some 3) (start mcpEnv allTicks (constructor mcpEnv)))
               \<lparr>hostTimeouts := []\<rparr>)) \<and>
   tagJob ''risk'' = Some RiskDetection \<and>
   requireActiveProject mcpEnv = Inr ''p1'' \<and>
   providerCalls
     (snd (triggerImmediateAnalysis mcpEnv ''risk'' (start mcpEnv allTicks (constructor mcpEnv)))) = 1 \<and>
   (\<exists>m. lastAnalysis
          (snd (triggerImmediateAnalysis mcpEnv ''risk''
             (start mcpEnv allTicks (constructor mcpEnv)))) =
        [(''risk_detection'', clock mcpEnv m)]) \<and>
   tagJob ''archive'' = Some DataArchiving \<and>
   assessCalls
     (snd (triggerImmediateAnalysis mcpEnv ''archive''
        (start mcpEnv allTicks (constructor mcpEnv)))) = 1"
proof -
  let ?c = "constructor mcpEnv"
  have a: "tagJob ''risk'' = Some RiskDetection" "tagJob ''archive'' = Some DataArchiving"
    by (simp_all add: tagJob_def)
  have b: "requireActiveProject mcpEnv = Inr ''p1''"
    by (simp add: mcpEnv_def ttyEnv_def)
  have c: "\<forall>s. \<exists>r. providerResult mcpEnv RiskDetection s = Inr r"
    by (simp add: mcpEnv_def ttyEnv_def)
  have d: "\<not> throttled (lastArchivingAttempt ?c) x" for x
    by (simp add: throttled_def constructor_fields)
  have e: "engagementLevel \<lparr>engagementLevel = Some 8\<rparr> = Some (8::int)"
    by simp
  have risk:
    "hostIntervals (start mcpEnv allTicks ?c) = [] \<and>
     hostTimeouts (start mcpEnv allTicks ?c) = [] \<and>
     intervals (start mcpEnv allTicks ?c) = [] \<and>
     activeIntervals (getStatus (start mcpEnv allTicks ?c)) = [] \<and>
     hostTimeouts (onProjectCreated ''p1'' (start mcpEnv allTicks ?c)) =
       [([StrategicAnalysis, OpportunityScanning], 10000)] \<and>
     hostTimeouts (onBlockCompleted (engagedBlock 8) (start mcpEnv allTicks ?c)) =
       [([StrategicAnalysis], 5000)] \<and>
     hostTimeouts (onStrategyEvolved ''p1'' (Some 3) (start mcpEnv allTicks ?c)) =
       [([RiskDetection], 3000)] \<and>
     exec mcpEnv (FireTimeout 0) (onBlockCompleted (engagedBlock 8) (start mcpEnv allTicks ?c)) =
       snd (performStrategicAnalysis mcpEnv
              ((onBlockCompleted (engagedBlock 8) (start mcpEnv allTicks ?c))\<lparr>hostTimeouts := []\<rparr>)) \<and>
     exec mcpEnv (FireTimeout 0) (onStrategyEvolved ''p1'' (Some 3) (start mcpEnv allTicks ?c)) =
       snd (performRiskDetection mcpEnv
              ((onStrategyEvolved ''p1'' (Some 3) (start mcpEnv allTicks ?c))\<lparr>hostTimeouts := []\<rparr>)) \<and>
     providerCalls (snd (triggerImmediateAnalysis mcpEnv ''risk'' (start mcpEnv allTicks ?c))) = 1 \<and>
     (\<exists>m. lastAnalysis (snd (triggerImmediateAnalysis mcpEnv ''risk'' (start mcpEnv allTicks ?c))) =
          [(''risk_detection'', clock mcpEnv m)])"
    using embedded_start_schedules_nothing
      [OF mcpEnv_not_tty, of allTicks ?c "''p1''" "engagedBlock 8" "Some 3" "''risk''" RiskDetection]
      a b c
    by (auto simp add: constructor_fields engagedBlock_def)
  have archive:
    "assessCalls (snd (triggerImmediateAnalysis mcpEnv ''archive'' (start mcpEnv allTicks ?c))) = 1"
    using embedded_start_schedules_nothing
      [OF mcpEnv_not_tty, of allTicks ?c "''p1''" "engagedBlock 8" "Some 3" "''archive''" DataArchiving]
      a b d
    by (auto simp add: constructor_fields)
  from mcpEnv_not_tty a b risk archive show ?thesis by simp
qed

end
